theory Spec2Isabelle
  imports Complex_Main "HOL-Library.Sublist"
begin

section \<open>Configuration\<close>

text \<open>
  \<^verbatim>\<open>config.json\<close> is read as a dictionary; every key may be absent, and the
  scanner supplies its default at the place of use (\<^verbatim>\<open>config.get(key, default)\<close>).
  A field of the record is \<open>None\<close> when its key is absent. A Python float is the real
  number that the double stands for; the arithmetic on floats is defined below.
\<close>

record profit_tier =
  max_skin_price :: real
  min_profit_usd :: real
  min_profit_percentage :: real

record retention_tier =
  rt_max_skin_price :: real
  rt_retention :: real

record float_tier_upgrade_settings =
  enabled :: bool
  max_float_premium_percentage :: "real option"
  float_proximity_threshold :: "real option"

record config =
  api_key :: "string option"
  scan_interval_seconds :: "real option"
  scan_pages :: "int option"
  min_price :: "real option"
  max_price :: "real option"
  dynamic_profit_targets :: "profit_tier list option"
  included_weapons :: "string list option"
  float_tier_upgrade :: "float_tier_upgrade_settings option"
  low_float_min_price_gap_usd :: "real option"
  low_float_top_percentile_threshold :: "real option"
  low_float_premium_retention_percentage :: "real option"
  sticker_retention_tiers :: "(string \<times> retention_tier list) list option"
  min_price_anomaly_discount_percentage :: "real option"
  charm_sale_fee_percentage :: "real option"
  overpay_max_price_above_base_percentage :: "real option"
  overpay_min_sticker_value :: "real option"

text \<open>\<^verbatim>\<open>d.get(key, default)\<close>\<close>

definition get_or :: "'a option \<Rightarrow> 'a \<Rightarrow> 'a" where
  "get_or v d = (case v of None \<Rightarrow> d | Some x \<Rightarrow> x)"

section \<open>Python floats\<close>

text \<open>
  A Python float is an IEEE 754 double. The model represents a finite double by the
  real number it stands for and gives every arithmetic operation of the source its
  rounding: the exact result is rounded to the nearest double, a tie to the one with an
  even significand. Comparisons of doubles are comparisons of the reals. Infinities and
  NaN are not represented: a result too large for a double stays a real above every
  double.

  \<open>round_half_even\<close> rounds to the nearest integer, \<open>binary_exponent y\<close> is the \<open>e\<close> with
  \<open>2 ^ e \<le> y < 2 ^ (e + 1)\<close> found by halving and doubling, and \<open>double_round\<close> rounds
  to 53 significant bits, with the fixed spacing \<open>2 ^ - 1074\<close> of the subnormal doubles
  below \<open>2 ^ - 1022\<close>.
\<close>

definition round_half_even :: "real \<Rightarrow> int" where
  "round_half_even r =
     (let f = \<lfloor>r\<rfloor>; d = r - real_of_int f
      in if d < 1 / 2 then f
         else if 1 / 2 < d then f + 1
         else if even f then f else f + 1)"

fun exponent_search :: "nat \<Rightarrow> real \<Rightarrow> int" where
  "exponent_search 0 y = 0"
| "exponent_search (Suc n) y =
     (if 2 \<le> y then exponent_search n (y / 2) + 1
      else if y < 1 then exponent_search n (2 * y) - 1
      else 0)"

definition binary_exponent :: "real \<Rightarrow> int" where
  "binary_exponent y = exponent_search 2200 y"

definition pow2 :: "int \<Rightarrow> real" where
  "pow2 k = (if 0 \<le> k then 2 ^ nat k else 1 / 2 ^ nat (- k))"

definition double_round :: "real \<Rightarrow> real" where
  "double_round x =
     (if x = 0 then 0
      else
        let e = max (binary_exponent \<bar>x\<bar>) (- 1022);
            ulp = pow2 (e - 52)
        in real_of_int (round_half_even (x / ulp)) * ulp)"

text \<open>
  The operators \<^verbatim>\<open>+\<close>, \<^verbatim>\<open>-\<close>, \<^verbatim>\<open>*\<close> and \<^verbatim>\<open>/\<close> on floats, and the conversion of a
  Python integer that an operation with a float performs first.
\<close>

definition fadd :: "real \<Rightarrow> real \<Rightarrow> real" where
  "fadd a b = double_round (a + b)"

definition fsub :: "real \<Rightarrow> real \<Rightarrow> real" where
  "fsub a b = double_round (a - b)"

definition fmul :: "real \<Rightarrow> real \<Rightarrow> real" where
  "fmul a b = double_round (a * b)"

definition fdiv :: "real \<Rightarrow> real \<Rightarrow> real" where
  "fdiv a b = double_round (a / b)"

definition float_of_int :: "int \<Rightarrow> real" where
  "float_of_int n = double_round (real_of_int n)"

section \<open>The profitability model\<close>

text \<open>
  \<^verbatim>\<open>Scanner.is_deal_profitable\<close>: the \<^verbatim>\<open>for tier in targets\<close> loop returns at the
  first tier whose ceiling admits the base price.
\<close>

fun profit_tier_loop :: "real \<Rightarrow> real \<Rightarrow> real \<Rightarrow> profit_tier list \<Rightarrow> bool" where
  "profit_tier_loop profit profit_percent base_price [] = False"
| "profit_tier_loop profit profit_percent base_price (tier # targets) =
     (if base_price \<le> max_skin_price tier then
        (if profit \<ge> min_profit_usd tier \<or> profit_percent \<ge> min_profit_percentage tier
         then True else False)
      else profit_tier_loop profit profit_percent base_price targets)"

definition is_deal_profitable :: "config \<Rightarrow> real \<Rightarrow> real \<Rightarrow> bool" where
  "is_deal_profitable cfg profit base_price =
     (if base_price \<le> 0 then False
      else
        let targets = get_or (dynamic_profit_targets cfg) [];
            profit_percent = fmul (fdiv profit base_price) 100
        in profit_tier_loop profit profit_percent base_price targets)"

text \<open>
  The profitability model in the words of its specification: the first tier, in
  configured order, whose ceiling is at least the base price decides alone. The
  percentage \<open>profit / base_price * 100\<close> is taken in the arithmetic of floats.
\<close>

definition is_profitable_spec :: "profit_tier list \<Rightarrow> real \<Rightarrow> real \<Rightarrow> bool" where
  "is_profitable_spec T profit base_price =
     (if base_price \<le> 0 then False
      else case find (\<lambda>tier. base_price \<le> max_skin_price tier) T of
             None \<Rightarrow> False
           | Some tier \<Rightarrow> profit \<ge> min_profit_usd tier
                          \<or> fmul (fdiv profit base_price) 100
                               \<ge> min_profit_percentage tier)"

text \<open>The tier list cut immediately after its first matching tier.\<close>

fun truncate_after_match :: "real \<Rightarrow> profit_tier list \<Rightarrow> profit_tier list" where
  "truncate_after_match base_price [] = []"
| "truncate_after_match base_price (tier # targets) =
     (if base_price \<le> max_skin_price tier then [tier]
      else tier # truncate_after_match base_price targets)"

definition with_targets :: "config \<Rightarrow> profit_tier list \<Rightarrow> config" where
  "with_targets cfg T = cfg\<lparr>dynamic_profit_targets := Some T\<rparr>"

section \<open>Listings and deals\<close>

text \<open>
  A listing of the feed is a JSON object read with \<^verbatim>\<open>.get\<close>; an absent key is
  \<open>None\<close>. Prices arrive in minor currency units. \<open>l_id\<close> is the key \<^verbatim>\<open>id\<close>,
  \<open>l_item\<close> the key \<^verbatim>\<open>item\<close>, \<open>l_price\<close> the key \<^verbatim>\<open>price\<close> and
  \<open>l_base_price\<close> the key \<^verbatim>\<open>reference.base_price\<close>; the fields of \<open>item_info\<close>
  and \<open>decoration\<close> carry the key after the prefix.
\<close>

record decoration =
  d_name :: "string option"
  d_scm_price :: "int option"
  d_reference_price :: "int option"

record item_info =
  i_market_hash_name :: "string option"
  i_wear_name :: "string option"
  i_float_value :: "real option"
  i_is_souvenir :: bool
  i_stickers :: "decoration list"
  i_keychains :: "decoration list"
  i_icon_url :: "string option"

record listing =
  l_id :: "string option"
  l_item :: item_info
  l_price :: "int option"
  l_base_price :: "int option"

datatype detail = Number real | Names "string option list"

record deal =
  deal_listing_id :: "string option"
  deal_strategy :: string
  deal_name :: string
  deal_image_url :: "string option"
  deal_profit :: real
  deal_url :: string
  deal_details :: "(string \<times> detail) list"

section \<open>The outside world and the scanner's state\<close>

text \<open>
  The price API answers \<^verbatim>\<open>{success, price}\<close>. \<open>lookup_raises\<close> is any exception
  of the request (network error, error status, a body that is not JSON); \<open>lookup_empty\<close>
  is a falsy body; \<open>price_malformed\<close> is a price on which \<^verbatim>\<open>float()\<close> raises.
\<close>

datatype price_field = price_missing | price_value real | price_malformed

datatype lookup_result = lookup_raises | lookup_empty | lookup_reply bool price_field

record feed_params =
  param_sort_by :: string
  param_type :: string
  param_limit :: nat
  param_min_price :: int
  param_max_price :: int
  param_cursor :: "string option"

text \<open>An entry of a page's \<^verbatim>\<open>data\<close> list is a listing object or something else.\<close>

datatype feed_item = item_object listing | item_not_object

datatype body = body_unexpected | body_envelope "feed_item list" "string option"

datatype http_result = http_ok body | http_error nat | network_error | unexpected_error

datatype db_outcome = db_done | db_raises

datatype event =
    FeedRequest feed_params
  | PriceRequest string
  | Sleep real
  | SaveDeals "deal list"
  | CycleError

text \<open>
  The world answers the scanner's effects: the \<open>k\<close>-th reading of \<^verbatim>\<open>time.time()\<close>, the
  \<open>k\<close>-th request to the price API, the \<open>k\<close>-th request to the feed and the \<open>k\<close>-th
  call of \<^verbatim>\<open>save_deals_to_db\<close> (which raises when the database cannot be opened or
  committed).
\<close>

record world =
  time_time :: "nat \<Rightarrow> real"
  price_api :: "nat \<Rightarrow> string \<Rightarrow> lookup_result"
  feed_api :: "nat \<Rightarrow> feed_params \<Rightarrow> http_result"
  database :: "nat \<Rightarrow> deal list \<Rightarrow> db_outcome"

record cache_entry =
  entry_price :: real
  entry_timestamp :: real

record scanner =
  seen_listing_ids :: "string option set"
  price_cache :: "string \<rightharpoonup> cache_entry"
  time_reads :: nat
  price_requests :: nat
  feed_requests :: nat
  db_calls :: nat
  trace :: "event list"

definition emit :: "event \<Rightarrow> scanner \<Rightarrow> scanner" where
  "emit e s = s\<lparr>trace := trace s @ [e]\<rparr>"

text \<open>\<^verbatim>\<open>time.sleep\<close>\<close>

definition time_sleep :: "real \<Rightarrow> scanner \<Rightarrow> scanner" where
  "time_sleep d s = emit (Sleep d) s"

definition read_time :: "world \<Rightarrow> scanner \<Rightarrow> real \<times> scanner" where
  "read_time w s = (time_time w (time_reads s), s\<lparr>time_reads := Suc (time_reads s)\<rparr>)"

section \<open>The price cache\<close>

text \<open>
  The part of \<^verbatim>\<open>Scanner.get_market_price\<close> under \<^verbatim>\<open>try\<close>: one request; a reply
  that reports success is stored with a fresh reading of the clock and followed by the
  cooldown; everything else returns 0 and stores nothing.
\<close>

definition fetch_price :: "world \<Rightarrow> string \<Rightarrow> scanner \<Rightarrow> real \<times> scanner" where
  "fetch_price w market_hash_name s =
     (let price_data = price_api w (price_requests s) market_hash_name;
          s1 = emit (PriceRequest market_hash_name)
                 (s\<lparr>price_requests := Suc (price_requests s)\<rparr>)
      in case price_data of
           lookup_raises \<Rightarrow> (0, s1)
         | lookup_empty \<Rightarrow> (0, s1)
         | lookup_reply success pf \<Rightarrow>
             if success then
               (case pf of
                  price_malformed \<Rightarrow> (0, s1)
                | _ \<Rightarrow>
                    let price = (case pf of price_value v \<Rightarrow> v | _ \<Rightarrow> 0);
                        (now, s2) = read_time w s1;
                        s3 = s2\<lparr>price_cache := (price_cache s2)(market_hash_name \<mapsto>
                                 \<lparr>entry_price = price, entry_timestamp = now\<rparr>)\<rparr>
                    in (price, time_sleep 2.5 s3))
             else (0, s1))"

definition get_market_price :: "world \<Rightarrow> string \<Rightarrow> scanner \<Rightarrow> real \<times> scanner" where
  "get_market_price w market_hash_name s =
     (case price_cache s market_hash_name of
        None \<Rightarrow> fetch_price w market_hash_name s
      | Some cached_price \<Rightarrow>
          let (now, s1) = read_time w s
          in if now - entry_timestamp cached_price < 3600
             then (entry_price cached_price, s1)
             else fetch_price w market_hash_name s1)"

section \<open>The feed client\<close>

text \<open>Python's \<^verbatim>\<open>int\<close> of a float truncates towards zero.\<close>

definition py_int :: "real \<Rightarrow> int" where
  "py_int x = (if 0 \<le> x then \<lfloor>x\<rfloor> else \<lceil>x\<rceil>)"

text \<open>Truth value of an optional string: absent and empty are false.\<close>

definition truthy :: "string option \<Rightarrow> bool" where
  "truthy v = (case v of None \<Rightarrow> False | Some x \<Rightarrow> x \<noteq> [])"

definition request_params :: "config \<Rightarrow> string option \<Rightarrow> feed_params" where
  "request_params cfg cursor =
     \<lparr>param_sort_by = ''most_recent'', param_type = ''buy_now'', param_limit = 50,
      param_min_price = py_int (fmul (get_or (min_price cfg) 0.50) 100),
      param_max_price = py_int (fmul (get_or (max_price cfg) 200.00) 100),
      param_cursor = (if truthy cursor then cursor else None)\<rparr>"

fun objects_of :: "feed_item list \<Rightarrow> listing list option" where
  "objects_of [] = Some []"
| "objects_of (item_not_object # xs) = None"
| "objects_of (item_object l # xs) = map_option ((#) l) (objects_of xs)"

text \<open>
  The \<^verbatim>\<open>for page in range(scan_pages)\<close> loop of \<^verbatim>\<open>Scanner.fetch_listings\<close>; the
  first argument counts the iterations that remain. \<^verbatim>\<open>continue\<close> and the normal end
  of the body both move to the next iteration; \<^verbatim>\<open>break\<close> leaves the loop. A page
  with an entry that is not an object raises inside the list comprehension, before
  anything of the page is accumulated.
\<close>

fun fetch_pages ::
  "world \<Rightarrow> config \<Rightarrow> nat \<Rightarrow> string option \<Rightarrow> listing list \<Rightarrow> scanner
     \<Rightarrow> listing list \<times> scanner" where
  "fetch_pages w cfg 0 cursor all_items s = (all_items, s)"
| "fetch_pages w cfg (Suc n) cursor all_items s =
     (let params = request_params cfg cursor;
          response = feed_api w (feed_requests s) params;
          s1 = emit (FeedRequest params) (s\<lparr>feed_requests := Suc (feed_requests s)\<rparr>)
      in case response of
           http_error status_code \<Rightarrow>
             if status_code = 429 then fetch_pages w cfg n cursor all_items (time_sleep 60 s1)
             else (all_items, s1)
         | network_error \<Rightarrow> (all_items, s1)
         | unexpected_error \<Rightarrow> (all_items, s1)
         | http_ok body_unexpected \<Rightarrow> (all_items, s1)
         | http_ok (body_envelope listings_on_page next_cursor) \<Rightarrow>
             (case objects_of listings_on_page of
                None \<Rightarrow> (all_items, s1)
              | Some objs \<Rightarrow>
                  let new_listings = filter (\<lambda>item. l_id item \<notin> seen_listing_ids s1) objs;
                      all_items' = all_items @ new_listings
                  in if \<not> truthy next_cursor then (all_items', s1)
                     else fetch_pages w cfg n next_cursor all_items' (time_sleep 2.5 s1)))"

definition fetch_listings :: "world \<Rightarrow> config \<Rightarrow> scanner \<Rightarrow> listing list \<times> scanner" where
  "fetch_listings w cfg s = fetch_pages w cfg (nat (get_or (scan_pages cfg) 10)) None [] s"

section \<open>Helpers of the strategies\<close>

text \<open>Python's \<^verbatim>\<open>w in name\<close> on strings: \<open>w\<close> occurs in \<open>name\<close> as a contiguous run.\<close>

fun py_in :: "string \<Rightarrow> string \<Rightarrow> bool" where
  "py_in w [] = (w = [])"
| "py_in w (c # cs) = (prefix w (c # cs) \<or> py_in w cs)"

text \<open>\<^verbatim>\<open>any(w in name for w in included)\<close>\<close>

definition any_weapon_in :: "string list \<Rightarrow> string \<Rightarrow> bool" where
  "any_weapon_in included name = list_ex (\<lambda>w. py_in w name) included"

text \<open>
  \<^verbatim>\<open>re.sub(r' \((.*?)\)', '', name)\<close>: every space followed by a parenthesised run
  without a line break (the shortest one) is removed, scanning from the left.
\<close>

definition in_parens :: "char \<Rightarrow> bool" where
  "in_parens x = (x \<noteq> CHR '')'' \<and> x \<noteq> CHR 0x0A)"

function re_sub_wear :: "string \<Rightarrow> string" where
  "re_sub_wear [] = []"
| "re_sub_wear (c # cs) =
     (if c = CHR '' '' \<and> cs \<noteq> [] \<and> hd cs = CHR ''(''
      then (case dropWhile in_parens (tl cs) of
              [] \<Rightarrow> c # re_sub_wear cs
            | x # after \<Rightarrow> if x = CHR '')'' then re_sub_wear after else c # re_sub_wear cs)
      else c # re_sub_wear cs)"
  by pat_completeness auto
termination
proof (relation "measure length")
  fix c :: char and cs x after
  assume "dropWhile in_parens (tl cs) = x # after"
  then have "length (x # after) \<le> length (tl cs)"
    by (metis length_dropWhile_le)
  then show "(after, c # cs) \<in> measure length" by simp
qed auto

text \<open>
  The wear tiers, better wear first, and the lowest float of each: the double nearest
  to the decimal literal of the source.
\<close>

definition wear_tiers :: "string list" where
  "wear_tiers = [''Factory New'', ''Minimal Wear'', ''Field-Tested'', ''Well-Worn'',
                 ''Battle-Scarred'']"

definition wear_tier_min_floats :: "(string \<times> real) list" where
  "wear_tier_min_floats =
     [(''Factory New'', 0.00), (''Minimal Wear'', double_round 0.07),
      (''Field-Tested'', double_round 0.15), (''Well-Worn'', double_round 0.38),
      (''Battle-Scarred'', double_round 0.45)]"

text \<open>\<^verbatim>\<open>xs.index(x)\<close>; \<open>None\<close> is the \<^verbatim>\<open>ValueError\<close>.\<close>

fun index_of :: "'a \<Rightarrow> 'a list \<Rightarrow> nat option" where
  "index_of x [] = None"
| "index_of x (y # ys) = (if x = y then Some 0 else map_option Suc (index_of x ys))"

text \<open>\<^verbatim>\<open>xs[i - 1]\<close> for an index \<open>i\<close> of \<open>xs\<close>: index \<open>-1\<close> is the last element.\<close>

definition item_before :: "'a list \<Rightarrow> nat \<Rightarrow> 'a" where
  "item_before xs i = (if i = 0 then last xs else xs ! (i - 1))"

text \<open>
  \<^verbatim>\<open>s.get('scm', {}).get('price') or s.get('reference', {}).get('price', 0)\<close>
\<close>

definition decoration_price :: "decoration \<Rightarrow> int" where
  "decoration_price s =
     (case d_scm_price s of
        None \<Rightarrow> get_or (d_reference_price s) 0
      | Some p \<Rightarrow> if p \<noteq> 0 then p else get_or (d_reference_price s) 0)"

definition decorations_value :: "decoration list \<Rightarrow> real" where
  "decorations_value ds = fdiv (float_of_int (sum_list (map decoration_price ds))) 100.0"

text \<open>\<^verbatim>\<open>str\<close> of an optional string inside an f-string.\<close>

definition py_str :: "string option \<Rightarrow> string" where
  "py_str v = (case v of None \<Rightarrow> ''None'' | Some x \<Rightarrow> x)"

definition item_url :: "listing \<Rightarrow> string" where
  "item_url item = ''https://csfloat.com/item/'' @ py_str (l_id item)"

text \<open>\<^verbatim>\<open>str.title\<close> on ASCII text.\<close>

definition is_lower :: "char \<Rightarrow> bool" where
  "is_lower c = (97 \<le> (of_char c :: nat) \<and> (of_char c :: nat) \<le> 122)"

definition is_upper :: "char \<Rightarrow> bool" where
  "is_upper c = (65 \<le> (of_char c :: nat) \<and> (of_char c :: nat) \<le> 90)"

fun title_from :: "bool \<Rightarrow> string \<Rightarrow> string" where
  "title_from prev [] = []"
| "title_from prev (c # cs) =
     (if is_lower c then
        (if prev then c else char_of ((of_char c :: nat) - 32)) # title_from True cs
      else if is_upper c then
        (if prev then char_of ((of_char c :: nat) + 32) else c) # title_from True cs
      else c # title_from False cs)"

definition title :: "string \<Rightarrow> string" where
  "title s = title_from False s"

text \<open>
  A strategy's \<^verbatim>\<open>for item in listings\<close> loop, the body given per listing; the body
  returns the deals it appends (none when it skips the listing or when its
  \<^verbatim>\<open>except\<close> absorbs an exception) and the scanner's state after it.
\<close>

fun for_listings ::
  "(listing \<Rightarrow> scanner \<Rightarrow> deal list \<times> scanner) \<Rightarrow> listing list \<Rightarrow> scanner
     \<Rightarrow> deal list \<times> scanner" where
  "for_listings body [] s = ([], s)"
| "for_listings body (item # listings) s =
     (let (ds, s1) = body item s;
          (deals, s2) = for_listings body listings s1
      in (ds @ deals, s2))"

section \<open>Strategy: high overpay potential\<close>

definition high_overpay_item :: "config \<Rightarrow> real \<Rightarrow> real \<Rightarrow> listing \<Rightarrow> deal list" where
  "high_overpay_item cfg max_over_base min_sticker_val item =
     (let info = l_item item in
      if i_is_souvenir info then []
      else
        let name = get_or (i_market_hash_name info) [] in
        case included_weapons cfg of
          None \<Rightarrow> []
        | Some included \<Rightarrow>
            if \<not> any_weapon_in included name then []
            else
              let listing_price = fdiv (float_of_int (get_or (l_price item) 0)) 100.0;
                  base_price = fdiv (float_of_int (get_or (l_base_price item) 0)) 100.0
              in if base_price = 0 \<or> listing_price > fmul base_price (fadd 1 max_over_base)
                 then []
                 else
                   let sticker_value = decorations_value (i_stickers info)
                   in if sticker_value < min_sticker_val then []
                      else [\<lparr>deal_listing_id = l_id item,
                             deal_strategy = ''High Overpay Potential'',
                             deal_name = name,
                             deal_image_url = i_icon_url info,
                             deal_profit = sticker_value,
                             deal_url = item_url item,
                             deal_details =
                               [(''Listing Price'', Number listing_price),
                                (''Base Skin Value'', Number base_price),
                                (''Raw Sticker Value'', Number sticker_value),
                                (''Stickers'', Names (map d_name (i_stickers info)))]\<rparr>])"

definition analyze_high_overpay_deals :: "config \<Rightarrow> listing list \<Rightarrow> deal list" where
  "analyze_high_overpay_deals cfg listings =
     (let max_over_base = fdiv (get_or (overpay_max_price_above_base_percentage cfg) 5.0) 100.0;
          min_sticker_val = get_or (overpay_min_sticker_value cfg) 50.0
      in concat (map (high_overpay_item cfg max_over_base min_sticker_val) listings))"

section \<open>Strategy: float tier upgrade\<close>

definition float_tier_upgrade_item ::
  "world \<Rightarrow> config \<Rightarrow> real \<Rightarrow> real \<Rightarrow> listing \<Rightarrow> scanner \<Rightarrow> deal list \<times> scanner" where
  "float_tier_upgrade_item w cfg max_premium proximity_threshold item s =
     (let info = l_item item;
          name = get_or (i_market_hash_name info) []
      in case i_wear_name info of
           None \<Rightarrow> ([], s)
         | Some current_wear \<Rightarrow>
         (case i_float_value info of
           None \<Rightarrow> ([], s)
         | Some float_value \<Rightarrow>
             if name = [] \<or> current_wear = [] \<or> float_value = 0
                \<or> current_wear = ''Factory New'' \<or> i_is_souvenir info then ([], s)
             else if \<not> any_weapon_in (get_or (included_weapons cfg) []) name then ([], s)
             else
               (case map_of wear_tier_min_floats current_wear of
                  None \<Rightarrow> ([], s)
                | Some wear_min_float \<Rightarrow>
                    if \<not> (wear_min_float \<noteq> 0
                           \<and> float_value < fadd wear_min_float proximity_threshold)
                    then ([], s)
                    else
                      let listing_price = fdiv (float_of_int (get_or (l_price item) 0)) 100.0;
                          base_price = fdiv (float_of_int (get_or (l_base_price item) 0)) 100.0
                      in if base_price > 0
                            \<and> listing_price > fmul base_price (fadd 1 max_premium)
                         then ([], s)
                         else
                           let name_no_wear = re_sub_wear name in
                           (case index_of current_wear wear_tiers of
                              None \<Rightarrow> ([], s)
                            | Some current_wear_index \<Rightarrow>
                                let next_best_wear = item_before wear_tiers current_wear_index;
                                    (next_tier_price, s1) = get_market_price w
                                       (name_no_wear @ '' ('' @ next_best_wear @ '')'') s
                                in if next_tier_price = 0 then ([], s1)
                                   else
                                     let profit = fsub next_tier_price listing_price
                                     in if is_deal_profitable cfg profit listing_price then
                                          let profit_percent =
                                                (if listing_price > 0
                                                 then fmul (fdiv profit listing_price) 100 else 0)
                                          in ([\<lparr>deal_listing_id = l_id item,
                                                 deal_strategy = ''Float Tier Upgrade'',
                                                 deal_name = name,
                                                 deal_image_url = i_icon_url info,
                                                 deal_profit = profit,
                                                 deal_url = item_url item,
                                                 deal_details =
                                                   [(''Float'', Number float_value),
                                                    (''Listing Price'', Number listing_price),
                                                    (''Current Tier Price'', Number base_price),
                                                    (''Next Tier Price'', Number next_tier_price),
                                                    (''Profit Percentage'',
                                                       Number profit_percent)]\<rparr>], s1)
                                        else ([], s1)))))"

definition analyze_float_tier_upgrade ::
  "world \<Rightarrow> config \<Rightarrow> listing list \<Rightarrow> scanner \<Rightarrow> deal list \<times> scanner" where
  "analyze_float_tier_upgrade w cfg listings s =
     (let settings = float_tier_upgrade cfg;
          max_premium =
            fdiv (get_or (case settings of None \<Rightarrow> None
                          | Some st \<Rightarrow> max_float_premium_percentage st) 3.0) 100.0;
          proximity_threshold =
            get_or (case settings of None \<Rightarrow> None
                    | Some st \<Rightarrow> float_proximity_threshold st) (double_round 0.008)
      in for_listings (float_tier_upgrade_item w cfg max_premium proximity_threshold)
           listings s)"

section \<open>Strategy: low float\<close>

definition low_float_item ::
  "world \<Rightarrow> config \<Rightarrow> real \<Rightarrow> real \<Rightarrow> listing \<Rightarrow> scanner \<Rightarrow> deal list \<times> scanner" where
  "low_float_item w cfg min_gap threshold item s =
     (let info = l_item item in
      if i_is_souvenir info then ([], s)
      else
        let name = get_or (i_market_hash_name info) [] in
        case included_weapons cfg of
          None \<Rightarrow> ([], s)
        | Some included \<Rightarrow>
        if \<not> any_weapon_in included name then ([], s)
        else
          (case i_wear_name info of
             None \<Rightarrow> ([], s)
           | Some current_wear_name \<Rightarrow>
          if current_wear_name = [] \<or> current_wear_name = ''Factory New'' then ([], s)
          else
            let float_value = get_or (i_float_value info) 1.0 in
            (case index_of current_wear_name wear_tiers of
               None \<Rightarrow> ([], s)
             | Some current_wear_index \<Rightarrow>
            (case map_of wear_tier_min_floats current_wear_name of
               None \<Rightarrow> ([], s)
             | Some wear_min_float \<Rightarrow>
            (case map_of wear_tier_min_floats (item_before wear_tiers current_wear_index) of
               None \<Rightarrow> ([], s)
             | Some wear_max_float \<Rightarrow>
                 let tier_range = fsub wear_max_float wear_min_float
                 in if tier_range \<le> 0
                       \<or> float_value > fadd wear_min_float (fmul tier_range threshold)
                    then ([], s)
                    else
                      let name_no_wear = re_sub_wear name;
                          current_wear_price =
                            fdiv (float_of_int (get_or (l_base_price item) 0)) 100.0;
                          next_best_wear = item_before wear_tiers current_wear_index;
                          (next_best_wear_price, s1) = get_market_price w
                             (name_no_wear @ '' ('' @ next_best_wear @ '')'') s
                      in if current_wear_price = 0 \<or> next_best_wear_price = 0 then ([], s1)
                         else
                           let price_difference = fsub next_best_wear_price current_wear_price
                           in if price_difference < min_gap then ([], s1)
                              else
                                let listing_price =
                                      fdiv (float_of_int (get_or (l_price item) 0)) 100.0;
                                    premium_retention =
                                      fdiv (get_or (low_float_premium_retention_percentage cfg)
                                              30.0) 100.0;
                                    potential_gain = fmul price_difference premium_retention;
                                    premium_paid = fsub listing_price current_wear_price;
                                    profit = fsub potential_gain premium_paid
                                in if is_deal_profitable cfg profit current_wear_price then
                                     let profit_percent =
                                           (if current_wear_price > 0
                                            then fmul (fdiv profit current_wear_price) 100 else 0)
                                     in ([\<lparr>deal_listing_id = l_id item,
                                            deal_strategy = ''Low Float'',
                                            deal_name = name,
                                            deal_image_url = i_icon_url info,
                                            deal_profit = profit,
                                            deal_url = item_url item,
                                            deal_details =
                                              [(''Float'', Number float_value),
                                               (''Listing Price'', Number listing_price),
                                               (''Market Price'', Number current_wear_price),
                                               (''Next Tier Price'',
                                                  Number next_best_wear_price),
                                               (''Premium Paid'', Number premium_paid),
                                               (''Profit Percentage'',
                                                  Number profit_percent)]\<rparr>], s1)
                                   else ([], s1))))))"

definition analyze_low_float_deals ::
  "world \<Rightarrow> config \<Rightarrow> listing list \<Rightarrow> scanner \<Rightarrow> deal list \<times> scanner" where
  "analyze_low_float_deals w cfg listings s =
     (let min_gap = get_or (low_float_min_price_gap_usd cfg) 10.0;
          threshold = fdiv (get_or (low_float_top_percentile_threshold cfg) 10.0) 100.0
      in for_listings (low_float_item w cfg min_gap threshold) listings s)"

text \<open>
  The low-float strategy as its specification words it: the tier's range runs from the
  tier's own lowest float up to its upper boundary, the lowest float of the next worse
  tier (1 for the worst tier), and a float within the top percentile of that range is
  admitted to the price comparison. The boundaries are the decimal numbers, the
  percentile an exact quotient.
\<close>

definition tier_lower_bounds :: "(string \<times> real) list" where
  "tier_lower_bounds =
     [(''Factory New'', 0.00), (''Minimal Wear'', 0.07), (''Field-Tested'', 0.15),
      (''Well-Worn'', 0.38), (''Battle-Scarred'', 0.45)]"

definition tier_upper_bound :: "string \<Rightarrow> real option" where
  "tier_upper_bound wear =
     (case index_of wear wear_tiers of
        None \<Rightarrow> None
      | Some i \<Rightarrow> if Suc i < length wear_tiers
                  then map_of tier_lower_bounds (wear_tiers ! Suc i) else Some 1)"

definition percentile_in_tier :: "string \<Rightarrow> real \<Rightarrow> real option" where
  "percentile_in_tier wear float_value =
     (case (map_of tier_lower_bounds wear, tier_upper_bound wear) of
        (Some tier_min, Some tier_max) \<Rightarrow>
          Some ((float_value - tier_min) / (tier_max - tier_min))
      | _ \<Rightarrow> None)"

section \<open>Strategies: sticker arbitrage, charm arbitrage, price anomaly\<close>

text \<open>The retention loop of the sticker strategy: the first bracket that fits wins.\<close>

fun retention_loop :: "real \<Rightarrow> retention_tier list \<Rightarrow> real" where
  "retention_loop base_price [] = 0.0"
| "retention_loop base_price (tier # tiers) =
     (if base_price \<le> rt_max_skin_price tier then fdiv (rt_retention tier) 100.0
      else retention_loop base_price tiers)"

definition sticker_item ::
  "config \<Rightarrow> string \<Rightarrow> retention_tier list \<Rightarrow> listing \<Rightarrow> deal list" where
  "sticker_item cfg strategy_name retention_tiers item =
     (let info = l_item item in
      if i_is_souvenir info then []
      else
        let name = get_or (i_market_hash_name info) [] in
        case included_weapons cfg of
          None \<Rightarrow> []
        | Some included \<Rightarrow>
            if \<not> any_weapon_in included name then []
            else
              let listing_price = fdiv (float_of_int (get_or (l_price item) 0)) 100.0;
                  base_price = fdiv (float_of_int (get_or (l_base_price item) 0)) 100.0
              in if base_price = 0 then []
                 else
                   let sticker_value = decorations_value (i_stickers info)
                   in if sticker_value = 0 then []
                      else
                        let retention = retention_loop base_price retention_tiers
                        in if retention = 0.0 then []
                           else
                             let retained_value = fmul sticker_value retention;
                                 profit = fsub (fadd base_price retained_value) listing_price
                             in if is_deal_profitable cfg profit base_price then
                                  let profit_percent =
                                        (if base_price > 0
                                         then fmul (fdiv profit base_price) 100 else 0)
                                  in [\<lparr>deal_listing_id = l_id item,
                                        deal_strategy = title strategy_name,
                                        deal_name = name,
                                        deal_image_url = i_icon_url info,
                                        deal_profit = profit,
                                        deal_url = item_url item,
                                        deal_details =
                                          [(''Listing Price'', Number listing_price),
                                           (''Base Skin Value'', Number base_price),
                                           (''Retained Sticker Value'', Number retained_value),
                                           (''Total Sticker Value'', Number sticker_value),
                                           (''Stickers'', Names (map d_name (i_stickers info))),
                                           (''Profit Percentage'', Number profit_percent)]\<rparr>]
                                else [])"

definition analyze_sticker_deals :: "config \<Rightarrow> listing list \<Rightarrow> string \<Rightarrow> deal list" where
  "analyze_sticker_deals cfg listings strategy_name =
     (let retention_tiers =
            get_or (map_of (get_or (sticker_retention_tiers cfg) []) strategy_name) []
      in concat (map (sticker_item cfg strategy_name retention_tiers) listings))"

definition price_anomaly_item :: "config \<Rightarrow> real \<Rightarrow> listing \<Rightarrow> deal list" where
  "price_anomaly_item cfg min_discount item =
     (let info = l_item item in
      if i_is_souvenir info then []
      else
        let name = get_or (i_market_hash_name info) [] in
        case included_weapons cfg of
          None \<Rightarrow> []
        | Some included \<Rightarrow>
            if \<not> any_weapon_in included name then []
            else
              let listing_price = fdiv (float_of_int (get_or (l_price item) 0)) 100.0;
                  base_price = fdiv (float_of_int (get_or (l_base_price item) 0)) 100.0
              in if base_price = 0 then []
                 else
                   let discount = fmul (fdiv (fsub base_price listing_price) base_price) 100
                   in if discount \<ge> min_discount then
                        let profit = fsub base_price listing_price
                        in if is_deal_profitable cfg profit base_price then
                             [\<lparr>deal_listing_id = l_id item,
                               deal_strategy = ''Price Anomaly'',
                               deal_name = name,
                               deal_image_url = i_icon_url info,
                               deal_profit = profit,
                               deal_url = item_url item,
                               deal_details =
                                 [(''Listing Price'', Number listing_price),
                                  (''Market Price'', Number base_price),
                                  (''Discount'', Number discount)]\<rparr>]
                           else []
                      else [])"

definition analyze_price_anomaly_deals :: "config \<Rightarrow> listing list \<Rightarrow> deal list" where
  "analyze_price_anomaly_deals cfg listings =
     (let min_discount = get_or (min_price_anomaly_discount_percentage cfg) 8.0
      in concat (map (price_anomaly_item cfg min_discount) listings))"

definition charm_item :: "config \<Rightarrow> real \<Rightarrow> listing \<Rightarrow> deal list" where
  "charm_item cfg fee_mult item =
     (let info = l_item item in
      if i_is_souvenir info \<or> i_keychains info = [] then []
      else
        let name = get_or (i_market_hash_name info) [] in
        case included_weapons cfg of
          None \<Rightarrow> []
        | Some included \<Rightarrow>
            if \<not> any_weapon_in included name then []
            else
              let listing_price = fdiv (float_of_int (get_or (l_price item) 0)) 100.0;
                  base_price = fdiv (float_of_int (get_or (l_base_price item) 0)) 100.0
              in if base_price = 0 then []
                 else
                   let charm_value = decorations_value (i_keychains info)
                   in if charm_value = 0 then []
                      else
                        let value_after_fees = fmul charm_value fee_mult;
                            profit = fsub (fadd base_price value_after_fees) listing_price
                        in if is_deal_profitable cfg profit base_price then
                             let profit_percent =
                                   (if base_price > 0 then fmul (fdiv profit base_price) 100 else 0)
                             in [\<lparr>deal_listing_id = l_id item,
                                   deal_strategy = ''Charm Arbitrage'',
                                   deal_name = name,
                                   deal_image_url = i_icon_url info,
                                   deal_profit = profit,
                                   deal_url = item_url item,
                                   deal_details =
                                     [(''Listing Price'', Number listing_price),
                                      (''Base Skin Value'', Number base_price),
                                      (''Charm Value (After Fee)'', Number value_after_fees),
                                      (''Charms'', Names (map d_name (i_keychains info))),
                                      (''Profit Percentage'', Number profit_percent)]\<rparr>]
                           else [])"

definition analyze_charm_deals :: "config \<Rightarrow> listing list \<Rightarrow> deal list" where
  "analyze_charm_deals cfg listings =
     (let fee_mult = fsub 1.0 (fdiv (get_or (charm_sale_fee_percentage cfg) 7.0) 100.0)
      in concat (map (charm_item cfg fee_mult) listings))"

section \<open>The scan loop\<close>

text \<open>
  \<^verbatim>\<open>save_deals_to_db\<close> hands the batch to the database; a failure per deal is absorbed
  inside it, a failure to open or commit raises.
\<close>

definition save_deals_to_db :: "world \<Rightarrow> deal list \<Rightarrow> scanner \<Rightarrow> db_outcome \<times> scanner" where
  "save_deals_to_db w deals s =
     (database w (db_calls s) deals, emit (SaveDeals deals) (s\<lparr>db_calls := Suc (db_calls s)\<rparr>))"

definition float_tier_upgrade_enabled :: "config \<Rightarrow> bool" where
  "float_tier_upgrade_enabled cfg =
     (case float_tier_upgrade cfg of None \<Rightarrow> False | Some st \<Rightarrow> enabled st)"

text \<open>The strategies of one cycle, in the order of the source.\<close>

definition run_strategies ::
  "world \<Rightarrow> config \<Rightarrow> listing list \<Rightarrow> scanner \<Rightarrow> deal list \<times> scanner" where
  "run_strategies w cfg listings s =
     (let d1 = analyze_sticker_deals cfg listings ''conservative'';
          d2 = analyze_sticker_deals cfg listings ''aggressive'';
          d3 = analyze_charm_deals cfg listings;
          (d4, s1) = analyze_low_float_deals w cfg listings s;
          d5 = analyze_high_overpay_deals cfg listings;
          d6 = analyze_price_anomaly_deals cfg listings;
          (d7, s2) = (if float_tier_upgrade_enabled cfg
                      then analyze_float_tier_upgrade w cfg listings s1 else ([], s1))
      in (d1 @ d2 @ d3 @ d4 @ d5 @ d6 @ d7, s2))"

text \<open>
  One pass of the \<^verbatim>\<open>while True\<close> loop of \<^verbatim>\<open>run_continuous_scan\<close>. The identifiers
  are added as the last statement under \<^verbatim>\<open>try\<close>; an exception before it goes to the
  \<^verbatim>\<open>except\<close>, which logs. The sleep follows in both cases.
\<close>

definition scan_cycle :: "world \<Rightarrow> config \<Rightarrow> scanner \<Rightarrow> scanner" where
  "scan_cycle w cfg s =
     (let (listings, s1) = fetch_listings w cfg s;
          s4 = (if listings \<noteq> [] then
                  let (deals, s2) = run_strategies w cfg listings s1;
                      (outcome, s3) = (if deals \<noteq> [] then save_deals_to_db w deals s2
                                       else (db_done, s2))
                  in case outcome of
                       db_raises \<Rightarrow> emit CycleError s3
                     | db_done \<Rightarrow>
                         s3\<lparr>seen_listing_ids := seen_listing_ids s3 \<union> set (map l_id listings)\<rparr>
                else s1);
          interval = get_or (scan_interval_seconds cfg) 600
      in time_sleep interval s4)"

text \<open>The first \<open>n\<close> cycles of the loop, which itself never ends.\<close>

fun run_continuous_scan :: "world \<Rightarrow> config \<Rightarrow> nat \<Rightarrow> scanner \<Rightarrow> scanner" where
  "run_continuous_scan w cfg 0 s = s"
| "run_continuous_scan w cfg (Suc n) s = run_continuous_scan w cfg n (scan_cycle w cfg s)"

section \<open>Notions used in the statements\<close>

text \<open>No listing of the sequence carries an identifier of the set.\<close>

definition all_unseen :: "string option set \<Rightarrow> listing list \<Rightarrow> bool" where
  "all_unseen seen items = (\<forall>l \<in> set items. l_id l \<notin> seen)"

text \<open>
  The guard of \<^verbatim>\<open>get_market_price\<close> fails: no entry under the name, or an entry whose
  age at the reading of the clock is not below 3600.
\<close>

definition needs_lookup :: "world \<Rightarrow> string \<Rightarrow> scanner \<Rightarrow> bool" where
  "needs_lookup w name s =
     (case price_cache s name of
        None \<Rightarrow> True
      | Some e \<Rightarrow> \<not> time_time w (time_reads s) - entry_timestamp e < 3600)"

text \<open>
  The scanner after the guard: an existing entry made the guard read the clock once.
\<close>

definition after_check :: "string \<Rightarrow> scanner \<Rightarrow> scanner" where
  "after_check name s =
     (case price_cache s name of
        None \<Rightarrow> s
      | Some e \<Rightarrow> s\<lparr>time_reads := Suc (time_reads s)\<rparr>)"

text \<open>\<^verbatim>\<open>float(price_data.get('price', '0'))\<close> for a price on which it does not raise.\<close>

definition replied_price :: "price_field \<Rightarrow> real" where
  "replied_price pf = (case pf of price_value v \<Rightarrow> v | _ \<Rightarrow> 0)"

text \<open>
  The prices of a listing in major units (minor units divided by 100 as floats), the
  total value of its stickers (for each sticker the secondary-market price when there is
  one other than 0, else the reference price, else 0; the sum divided by 100), and the
  shared weapon filter.
\<close>

definition listing_price_of :: "listing \<Rightarrow> real" where
  "listing_price_of item = fdiv (float_of_int (get_or (l_price item) 0)) 100"

definition base_price_of :: "listing \<Rightarrow> real" where
  "base_price_of item = fdiv (float_of_int (get_or (l_base_price item) 0)) 100"

definition sticker_minor_units :: "decoration \<Rightarrow> int" where
  "sticker_minor_units s =
     (let reference = (case d_reference_price s of None \<Rightarrow> 0 | Some r \<Rightarrow> r)
      in case d_scm_price s of
           None \<Rightarrow> reference
         | Some p \<Rightarrow> if p = 0 then reference else p)"

definition total_sticker_value :: "listing \<Rightarrow> real" where
  "total_sticker_value item =
     fdiv (float_of_int (\<Sum>s \<leftarrow> i_stickers (l_item item). sticker_minor_units s)) 100"

definition name_of :: "listing \<Rightarrow> string" where
  "name_of item = get_or (i_market_hash_name (l_item item)) []"

definition passes_weapon_filter :: "config \<Rightarrow> listing \<Rightarrow> bool" where
  "passes_weapon_filter cfg item =
     (case included_weapons cfg of
        None \<Rightarrow> False
      | Some included \<Rightarrow> any_weapon_in included (name_of item))"

text \<open>
  The settings of the float-tier-upgrade strategy with their defaults, and the name
  under which the next better tier is priced.
\<close>

definition proximity_threshold_of :: "config \<Rightarrow> real" where
  "proximity_threshold_of cfg =
     get_or (case float_tier_upgrade cfg of None \<Rightarrow> None
             | Some st \<Rightarrow> float_proximity_threshold st) (double_round 0.008)"

definition max_premium_of :: "config \<Rightarrow> real" where
  "max_premium_of cfg =
     fdiv (get_or (case float_tier_upgrade cfg of None \<Rightarrow> None
                   | Some st \<Rightarrow> max_float_premium_percentage st) 3.0) 100"

definition next_tier_name :: "listing \<Rightarrow> nat \<Rightarrow> string" where
  "next_tier_name item idx =
     re_sub_wear (name_of item) @ '' ('' @ item_before wear_tiers idx @ '')''"

text \<open>Two states of the scanner with the same seen set and the same count of database calls.\<close>

definition same_bookkeeping :: "scanner \<Rightarrow> scanner \<Rightarrow> bool" where
  "same_bookkeeping s s' =
     (seen_listing_ids s' = seen_listing_ids s \<and> db_calls s' = db_calls s)"

text \<open>The hand-off of a cycle raises: listings were fetched, deals found, and the database fails.\<close>

definition handoff_raises :: "world \<Rightarrow> config \<Rightarrow> scanner \<Rightarrow> bool" where
  "handoff_raises w cfg s =
     (let listings = fst (fetch_listings w cfg s);
          deals = fst (run_strategies w cfg listings (snd (fetch_listings w cfg s)))
      in listings \<noteq> [] \<and> deals \<noteq> [] \<and> database w (db_calls s) deals = db_raises)"

section \<open>Concrete scenarios\<close>

text \<open>A configuration with every key absent, and a table of profit tiers.\<close>

definition empty_config :: config where
  "empty_config =
     \<lparr>api_key = None, scan_interval_seconds = None, scan_pages = None, min_price = None,
      max_price = None, dynamic_profit_targets = None, included_weapons = None,
      float_tier_upgrade = None, low_float_min_price_gap_usd = None,
      low_float_top_percentile_threshold = None,
      low_float_premium_retention_percentage = None, sticker_retention_tiers = None,
      min_price_anomaly_discount_percentage = None, charm_sale_fee_percentage = None,
      overpay_max_price_above_base_percentage = None, overpay_min_sticker_value = None\<rparr>"

definition example_tiers :: "profit_tier list" where
  "example_tiers =
     [\<lparr>max_skin_price = 20, min_profit_usd = 2, min_profit_percentage = 10\<rparr>,
      \<lparr>max_skin_price = 100, min_profit_usd = 5, min_profit_percentage = 8\<rparr>,
      \<lparr>max_skin_price = 1000, min_profit_usd = 1, min_profit_percentage = 1\<rparr>]"

text \<open>
  A world in which every request fails and the clock stands at 0, and a scanner as
  \<^verbatim>\<open>__init__\<close> leaves it.
\<close>

definition quiet_world :: world where
  "quiet_world =
     \<lparr>time_time = (\<lambda>k. 0), price_api = (\<lambda>k name. lookup_raises),
      feed_api = (\<lambda>k params. network_error), database = (\<lambda>k deals. db_done)\<rparr>"

definition initial_scanner :: scanner where
  "initial_scanner =
     \<lparr>seen_listing_ids = {}, price_cache = Map.empty, time_reads = 0, price_requests = 0,
      feed_requests = 0, db_calls = 0, trace = []\<rparr>"

text \<open>
  The high-overpay scenario: base price 100.00, listing price 102.00, stickers worth
  60.00 together: 25.00 on the secondary market, 35.00 by the reference price of a
  sticker whose secondary-market price is 0, and one sticker without any price.
\<close>

definition overpay_listing :: listing where
  "overpay_listing =
     \<lparr>l_id = Some ''L1'',
      l_item = \<lparr>i_market_hash_name = Some ''AK-47 | Redline (Field-Tested)'',
                i_wear_name = Some ''Field-Tested'', i_float_value = Some (double_round 0.20),
                i_is_souvenir = False,
                i_stickers = [\<lparr>d_name = Some ''Sticker | Crown (Foil)'',
                               d_scm_price = Some 2500, d_reference_price = Some 2400\<rparr>,
                              \<lparr>d_name = Some ''Sticker | Howling Dawn'',
                               d_scm_price = Some 0, d_reference_price = Some 3500\<rparr>,
                              \<lparr>d_name = None,
                               d_scm_price = None, d_reference_price = None\<rparr>],
                i_keychains = [], i_icon_url = None\<rparr>,
      l_price = Some 10200, l_base_price = Some 10000\<rparr>"

definition other_listing :: listing where
  "other_listing = overpay_listing\<lparr>l_id := Some ''L0''\<rparr>"

definition weapons_config :: config where
  "weapons_config = empty_config\<lparr>included_weapons := Some [''AK-47'', ''AWP'']\<rparr>"

text \<open>A feed of one page holding both listings.\<close>

definition one_page_world :: world where
  "one_page_world =
     quiet_world\<lparr>feed_api := (\<lambda>k params.
        http_ok (body_envelope [item_object other_listing, item_object overpay_listing] None))\<rparr>"

text \<open>
  A feed of two pages that answers the first request of a fetch with status 429: the
  first page comes without a cursor in the request, the second with one.
\<close>

definition two_page_feed :: "feed_params \<Rightarrow> http_result" where
  "two_page_feed params =
     (if param_cursor params = None
      then http_ok (body_envelope [item_object other_listing] (Some ''c1''))
      else http_ok (body_envelope [item_object overpay_listing] None))"

definition two_page_world :: world where
  "two_page_world = quiet_world\<lparr>feed_api := (\<lambda>k params. two_page_feed params)\<rparr>"

definition rate_limited_world :: world where
  "rate_limited_world =
     quiet_world\<lparr>feed_api := (\<lambda>k params. if k = 0 then http_error 429
                                           else two_page_feed params)\<rparr>"

definition pages_config :: "int \<Rightarrow> config" where
  "pages_config n = empty_config\<lparr>scan_pages := Some n\<rparr>"

text \<open>
  Price lookups: a world whose price API answers 12.50 at every request, with the clock
  at 100 times the number of readings; a scanner holding an entry fetched at time 0.
\<close>

definition priced_world :: world where
  "priced_world =
     quiet_world\<lparr>time_time := (\<lambda>k. 100 * real k),
                 price_api := (\<lambda>k name. lookup_reply True (price_value 12.5))\<rparr>"

definition late_failing_world :: world where
  "late_failing_world = quiet_world\<lparr>time_time := (\<lambda>k. 3600)\<rparr>"

definition late_priced_world :: world where
  "late_priced_world = priced_world\<lparr>time_time := (\<lambda>k. 3600 + real k)\<rparr>"

definition stale_scanner :: scanner where
  "stale_scanner =
     initial_scanner\<lparr>price_cache :=
        [''AK-47 | Redline (Minimal Wear)'' \<mapsto> \<lparr>entry_price = 5, entry_timestamp = 0\<rparr>]\<rparr>"

text \<open>
  A price API that reports success without a price at the first request and 7.00 from
  the second request on.
\<close>

definition zero_price_world :: world where
  "zero_price_world =
     quiet_world\<lparr>time_time := (\<lambda>k. 100 * real k),
                 price_api := (\<lambda>k name. if k = 0 then lookup_reply True price_missing
                                          else lookup_reply True (price_value 7))\<rparr>"

text \<open>
  A Field-Tested listing 0.001 above the tier's lowest float (the double nearest to
  0.151), priced at its base price of 50.00, in a world where the Minimal Wear variant
  sells for 150.00.
\<close>

definition low_float_listing :: listing where
  "low_float_listing =
     \<lparr>l_id = Some ''L2'',
      l_item = \<lparr>i_market_hash_name = Some ''AK-47 | Redline (Field-Tested)'',
                i_wear_name = Some ''Field-Tested'',
                i_float_value = Some (double_round 0.151),
                i_is_souvenir = False, i_stickers = [], i_keychains = [],
                i_icon_url = None\<rparr>,
      l_price = Some 5000, l_base_price = Some 5000\<rparr>"

definition upgrade_world :: world where
  "upgrade_world =
     quiet_world\<lparr>price_api := (\<lambda>k name.
        if name = ''AK-47 | Redline (Minimal Wear)''
        then lookup_reply True (price_value 150) else lookup_raises)\<rparr>"

definition upgrade_config :: config where
  "upgrade_config =
     weapons_config\<lparr>dynamic_profit_targets := Some example_tiers,
       float_tier_upgrade := Some \<lparr>enabled = True, max_float_premium_percentage = None,
                                    float_proximity_threshold =
                                      Some (double_round 0.008)\<rparr>\<rparr>"

text \<open>The one-page feed with a database that cannot be opened.\<close>

definition broken_db_world :: world where
  "broken_db_world = one_page_world\<lparr>database := (\<lambda>k deals. db_raises)\<rparr>"

definition cycle_config :: config where
  "cycle_config = weapons_config\<lparr>scan_pages := Some 2\<rparr>"

text \<open>
  Inputs at which the rounding of floats decides: a profit of 29.00 on a base price of
  100.00 against a tier asking 30.00 or 29 percent (the percentage computes to
  28.999999999999996), and a listing at 3.99 over a base price of 3.80 under the cap of
  5 percent (the cap computes to 3.9899999999999998).
\<close>

definition rounding_tiers :: "profit_tier list" where
  "rounding_tiers = [\<lparr>max_skin_price = 100, min_profit_usd = 30, min_profit_percentage = 29\<rparr>]"

definition boundary_listing :: listing where
  "boundary_listing = overpay_listing\<lparr>l_id := Some ''L3'', l_price := Some 399,
                                       l_base_price := Some 380\<rparr>"

text \<open>
  The Field-Tested listing of above offered at 60.00, 20 percent over its base price
  of 50.00.
\<close>

definition premium_listing :: listing where
  "premium_listing = low_float_listing\<lparr>l_id := Some ''L4'', l_price := Some 6000\<rparr>"

section \<open>Properties of the arithmetic of floats\<close>

lemma exponent_search_numeral:
  "exponent_search (numeral k) y =
     (if 2 \<le> y then exponent_search (pred_numeral k) (y / 2) + 1
      else if y < 1 then exponent_search (pred_numeral k) (2 * y) - 1
      else 0)"
  by (simp add: numeral_eq_Suc)

lemmas float_eval =
  fadd_def fsub_def fmul_def fdiv_def float_of_int_def double_round_def binary_exponent_def
  exponent_search_numeral pow2_def round_half_even_def Let_def

lemma pow2_positive: "0 < pow2 k"
  by (simp add: pow2_def)

lemma round_half_even_nonpos:
  assumes "r \<le> 0"
  shows "round_half_even r \<le> 0"
proof (cases "\<lfloor>r\<rfloor> = 0")
  case True
  then have "0 \<le> r" by linarith
  with assms have "r = 0" by simp
  then show ?thesis by (simp add: round_half_even_def)
next
  case False
  from assms have "\<lfloor>r\<rfloor> \<le> 0" by linarith
  with False have "\<lfloor>r\<rfloor> + 1 \<le> 0" by linarith
  then show ?thesis by (simp add: round_half_even_def Let_def)
qed

lemma double_round_nonpos:
  assumes "x \<le> 0"
  shows "double_round x \<le> 0"
proof (cases "x = 0")
  case True
  then show ?thesis by (simp add: double_round_def)
next
  case False
  let ?ulp = "pow2 (max (binary_exponent \<bar>x\<bar>) (- 1022) - 52)"
  have "x / ?ulp \<le> 0"
    using assms pow2_positive[of "max (binary_exponent \<bar>x\<bar>) (- 1022) - 52"]
    by (simp add: divide_nonpos_pos)
  then have "round_half_even (x / ?ulp) \<le> 0" by (rule round_half_even_nonpos)
  then have "real_of_int (round_half_even (x / ?ulp)) * ?ulp \<le> 0"
    using pow2_positive[of "max (binary_exponent \<bar>x\<bar>) (- 1022) - 52"]
    by (simp add: mult_le_0_iff)
  with False show ?thesis by (simp add: double_round_def Let_def)
qed

lemma wear_literals:
  "double_round 0.07 = 1261007895663739 / 2 ^ 54"
  "double_round 0.15 = 5404319552844595 / 2 ^ 55"
  "double_round 0.38 = 3422735716801577 / 2 ^ 53"
  "double_round 0.45 = 8106479329266893 / 2 ^ 54"
  by (simp_all add: float_eval)

lemma float_literals:
  "double_round 0.008 = 1152921504606847 / 2 ^ 57"
  "double_round 0.151 = 5440348349863559 / 2 ^ 55"
  "double_round 0.20 = 3602879701896397 / 2 ^ 54"
  by (simp_all add: float_eval)

text \<open>
  Rounding is visible at ordinary prices: 29.0 / 100.0 * 100 is below 29, and
  3.8 * (1 + 5.0 / 100.0) is below 3.99.
\<close>

lemma percentage_of_29: "fmul (fdiv 29 100) 100 = 8162774324609023 / 2 ^ 48"
  by (simp add: float_eval)

lemma default_overpay_cap: "fadd 1 (fdiv 5 100) = 4728779608739021 / 2 ^ 52"
  by (simp add: float_eval)

lemma cap_of_380: "fmul (fdiv (float_of_int 380) 100) (fadd 1 (fdiv 5 100))
                     = 8984681256604139 / 2 ^ 51"
  by (simp add: float_eval)

lemma cents_to_major:
  "fdiv (float_of_int 399) 100 = 8984681256604140 / 2 ^ 51"
  "fdiv (float_of_int 10200) 100 = 102"
  "fdiv (float_of_int 10000) 100 = 100"
  "fdiv (float_of_int 6000) 100 = 60"
  "fdiv (float_of_int 5000) 100 = 50"
  "fdiv (float_of_int 0) 100 = 0"
  by (simp_all add: float_eval)

lemma cap_of_100: "fmul 100 (fadd 1 (fdiv 5 100)) = 105"
  by (simp add: float_eval)

section \<open>Properties of the profitability model\<close>

lemma profit_tier_loop_find:
  "profit_tier_loop profit pp base_price T =
     (case find (\<lambda>tier. base_price \<le> max_skin_price tier) T of
        None \<Rightarrow> False
      | Some tier \<Rightarrow> profit \<ge> min_profit_usd tier \<or> pp \<ge> min_profit_percentage tier)"
  by (induction T) auto

lemma profit_tier_loop_truncate:
  "profit_tier_loop profit pp base_price (truncate_after_match base_price T) =
     profit_tier_loop profit pp base_price T"
  by (induction T) auto

lemma profit_tier_loop_first_match:
  assumes "\<forall>t \<in> set pre. \<not> base_price \<le> max_skin_price t"
    and "base_price \<le> max_skin_price tier"
  shows "profit_tier_loop profit pp base_price (pre @ tier # post) =
           (profit \<ge> min_profit_usd tier \<or> pp \<ge> min_profit_percentage tier)"
  using assms by (induction pre) auto

text \<open>
  C4. \<^verbatim>\<open>is_deal_profitable\<close> is false for a base price at most 0; otherwise the first
  configured tier with \<open>base_price \<le> max_skin_price\<close> decides: the result is true iff
  \<open>profit \<ge> min_profit_usd\<close> or \<open>profit / base_price * 100 \<ge> min_profit_percentage\<close> of
  that tier, the percentage computed in floats, no later tier being consulted; with no
  such tier the result is false. An absent tier list counts as the empty one.
\<close>

theorem is_deal_profitable_first_tier:
  "is_deal_profitable cfg profit base_price =
     is_profitable_spec (get_or (dynamic_profit_targets cfg) []) profit base_price"
  by (simp add: is_deal_profitable_def is_profitable_spec_def profit_tier_loop_find Let_def
      split: option.split)

theorem is_deal_profitable_first_tier_witness:
  "is_deal_profitable (with_targets empty_config example_tiers) 3 50 = False
   \<and> is_deal_profitable (with_targets empty_config example_tiers) 3 2000 = False
   \<and> is_deal_profitable (with_targets empty_config example_tiers) 3 0 = False
   \<and> is_deal_profitable (with_targets empty_config example_tiers) 5 50 = True
   \<and> is_deal_profitable (with_targets empty_config example_tiers) 4 50 = True
   \<and> is_deal_profitable (with_targets empty_config rounding_tiers) 29 100 = False"
proof -
  have p: "fmul (fdiv 3 50) 100 = 6" "fmul (fdiv 4 50) 100 = 8"
    by (simp_all add: float_eval)
  show ?thesis
    using is_deal_profitable_first_tier[of "with_targets empty_config example_tiers"]
      is_deal_profitable_first_tier[of "with_targets empty_config rounding_tiers"]
    by (simp add: is_profitable_spec_def with_targets_def get_or_def example_tiers_def
          rounding_tiers_def p percentage_of_29)
qed

lemma truncate_after_match_split:
  assumes "\<exists>t \<in> set T. base_price \<le> max_skin_price t"
  shows "\<exists>pre tier post. T = pre @ tier # post
           \<and> (\<forall>t \<in> set pre. \<not> base_price \<le> max_skin_price t)
           \<and> base_price \<le> max_skin_price tier
           \<and> truncate_after_match base_price T = pre @ [tier]"
  using assms
proof (induction T)
  case Nil
  then show ?case by simp
next
  case (Cons a T)
  show ?case
  proof (cases "base_price \<le> max_skin_price a")
    case True
    then have "a # T = [] @ a # T \<and> (\<forall>t \<in> set []. \<not> base_price \<le> max_skin_price t)
      \<and> base_price \<le> max_skin_price a \<and> truncate_after_match base_price (a # T) = [] @ [a]"
      by simp
    then show ?thesis by blast
  next
    case False
    with Cons.prems have "\<exists>t \<in> set T. base_price \<le> max_skin_price t" by auto
    from Cons.IH[OF this] obtain pre tier post where
      h: "T = pre @ tier # post" "\<forall>t \<in> set pre. \<not> base_price \<le> max_skin_price t"
         "base_price \<le> max_skin_price tier" "truncate_after_match base_price T = pre @ [tier]"
      by blast
    from h False have "a # T = (a # pre) @ tier # post
      \<and> (\<forall>t \<in> set (a # pre). \<not> base_price \<le> max_skin_price t)
      \<and> base_price \<le> max_skin_price tier
      \<and> truncate_after_match base_price (a # T) = (a # pre) @ [tier]"
      by simp
    then show ?thesis by blast
  qed
qed

lemma profit_tier_loop_truncate_append:
  assumes "\<exists>t \<in> set T. base_price \<le> max_skin_price t"
  shows "profit_tier_loop p pp base_price (truncate_after_match base_price T @ post') =
         profit_tier_loop p pp base_price T"
  using assms by (induction T) auto

text \<open>
  C5. For a positive base price and a tier list \<open>T\<close> with a matching tier
  (\<open>base_price \<le> max_skin_price\<close>): \<open>T\<close> splits into the tiers before the first match,
  the first match and the rest, the truncation keeps exactly the first two parts, and
  \<^verbatim>\<open>is_deal_profitable\<close> gives the same result on \<open>T\<close>, on the truncation and on the
  truncation followed by any other tiers. The result is a function of the inputs and
  the tier list alone.
\<close>

theorem is_deal_profitable_truncation:
  assumes "0 < base_price"
    and "\<exists>t \<in> set T. base_price \<le> max_skin_price t"
  shows "is_deal_profitable (with_targets cfg (truncate_after_match base_price T)) p base_price
           = is_deal_profitable (with_targets cfg T) p base_price
         \<and> (\<forall>post'. is_deal_profitable
                (with_targets cfg (truncate_after_match base_price T @ post')) p base_price
              = is_deal_profitable (with_targets cfg T) p base_price)
         \<and> (\<exists>pre tier post. T = pre @ tier # post
              \<and> (\<forall>t \<in> set pre. \<not> base_price \<le> max_skin_price t)
              \<and> base_price \<le> max_skin_price tier
              \<and> truncate_after_match base_price T = pre @ [tier])"
proof -
  have a: "\<And>post'. is_deal_profitable
                (with_targets cfg (truncate_after_match base_price T @ post')) p base_price
              = is_deal_profitable (with_targets cfg T) p base_price"
    using assms
    by (simp add: is_deal_profitable_def with_targets_def get_or_def
        profit_tier_loop_truncate_append)
  from a[of "[]"] a truncate_after_match_split[OF assms(2)] show ?thesis by simp
qed

theorem is_deal_profitable_truncation_witness:
  "(0::real) < 50 \<and> (\<exists>t \<in> set example_tiers. (50::real) \<le> max_skin_price t)
   \<and> is_deal_profitable (with_targets empty_config (take 2 example_tiers)) 3 50
     = is_deal_profitable (with_targets empty_config example_tiers) 3 50
   \<and> is_deal_profitable (with_targets empty_config (take 2 example_tiers @ [hd example_tiers])) 3 50
     = is_deal_profitable (with_targets empty_config example_tiers) 3 50"
proof -
  have h: "\<exists>t \<in> set example_tiers. (50::real) \<le> max_skin_price t"
    by (simp add: example_tiers_def)
  have t: "truncate_after_match 50 example_tiers = take 2 example_tiers"
    by (simp add: example_tiers_def)
  from is_deal_profitable_truncation[of 50 example_tiers empty_config 3] h t
  show ?thesis by simp
qed

section \<open>Properties of the feed client\<close>

lemma seen_emit [simp]: "seen_listing_ids (emit e s) = seen_listing_ids s"
  by (simp add: emit_def)

lemma seen_time_sleep [simp]: "seen_listing_ids (time_sleep d s) = seen_listing_ids s"
  by (simp add: time_sleep_def)

lemma fetch_pages_seen:
  "seen_listing_ids (snd (fetch_pages w cfg n cursor all_items s)) = seen_listing_ids s"
proof (induction n arbitrary: cursor all_items s)
  case 0
  show ?case by simp
next
  case (Suc n)
  show ?case
    apply (subst fetch_pages.simps(2))
    apply (simp only: Let_def)
    apply (simp add: Suc split: http_result.split body.split option.split)
    done
qed

lemma all_unseen_append_filter:
  "all_unseen seen items \<Longrightarrow> all_unseen seen (items @ filter (\<lambda>item. l_id item \<notin> seen) objs)"
  by (auto simp: all_unseen_def)

lemma fetch_pages_unseen:
  "all_unseen (seen_listing_ids s) all_items \<Longrightarrow>
   all_unseen (seen_listing_ids s) (fst (fetch_pages w cfg n cursor all_items s))"
proof (induction n arbitrary: cursor all_items s)
  case 0
  then show ?case by simp
next
  case (Suc n)
  let ?s1 = "emit (FeedRequest (request_params cfg cursor))
               (s\<lparr>feed_requests := Suc (feed_requests s)\<rparr>)"
  have retry: "all_unseen (seen_listing_ids s)
                 (fst (fetch_pages w cfg n cursor all_items (time_sleep 60 ?s1)))"
    using Suc.IH[of "time_sleep 60 ?s1" all_items cursor] Suc.prems by simp
  have nxt: "all_unseen (seen_listing_ids s) (fst (fetch_pages w cfg n c
                 (all_items @ filter (\<lambda>item. l_id item \<notin> seen_listing_ids s) objs)
                 (time_sleep d ?s1)))" for c objs d
    using Suc.IH[of "time_sleep d ?s1"
                    "all_items @ filter (\<lambda>item. l_id item \<notin> seen_listing_ids s) objs" c]
      all_unseen_append_filter[OF Suc.prems, of objs] by simp
  show ?case
    apply (subst fetch_pages.simps(2))
    apply (simp only: Let_def)
    apply (simp add: retry nxt Suc.prems all_unseen_append_filter
             split: http_result.split body.split option.split)
    done
qed

text \<open>
  C7. Whatever the scanner's state and whatever the feed answers, no listing returned
  by \<^verbatim>\<open>fetch_listings\<close> carries an identifier that was in \<^verbatim>\<open>seen_listing_ids\<close> when the
  call began.
\<close>

theorem fetch_listings_drops_seen:
  "\<forall>l \<in> set (fst (fetch_listings w cfg s)). l_id l \<notin> seen_listing_ids s"
  using fetch_pages_unseen[of s "[]" w cfg _ None]
  by (simp add: fetch_listings_def all_unseen_def)

lemma fetch_one_page:
  "fst (fetch_listings one_page_world (pages_config 2)
          (initial_scanner\<lparr>seen_listing_ids := {Some ''L0''}\<rparr>)) = [overpay_listing]"
  by (simp add: fetch_listings_def pages_config_def empty_config_def get_or_def
        numeral_2_eq_2 one_page_world_def quiet_world_def initial_scanner_def Let_def
        emit_def truthy_def other_listing_def overpay_listing_def)

theorem fetch_listings_drops_seen_witness:
  "fst (fetch_listings one_page_world (pages_config 2)
          (initial_scanner\<lparr>seen_listing_ids := {Some ''L0''}\<rparr>)) = [overpay_listing]
   \<and> l_id overpay_listing \<notin> {Some ''L0''}"
  using fetch_listings_drops_seen[of one_page_world "pages_config 2"
          "initial_scanner\<lparr>seen_listing_ids := {Some ''L0''}\<rparr>"]
  by (simp add: fetch_one_page)

text \<open>
  C1, evaluated on the code. With a budget of two pages and status 429 on the first
  request, the scanner sleeps 60, repeats the request without a cursor, receives the
  first page and stops: two requests were made and the second page is never asked for,
  while the same feed without the 429 delivers both pages. With a budget of one page the
  scanner sleeps 60 and returns without repeating the request at all.
\<close>

theorem fetch_listings_retry_spends_page_budget:
  "fst (fetch_listings rate_limited_world (pages_config 2) initial_scanner) = [other_listing]
   \<and> trace (snd (fetch_listings rate_limited_world (pages_config 2) initial_scanner)) =
       [FeedRequest (request_params (pages_config 2) None), Sleep 60,
        FeedRequest (request_params (pages_config 2) None), Sleep 2.5]
   \<and> fst (fetch_listings two_page_world (pages_config 2) initial_scanner) =
       [other_listing, overpay_listing]
   \<and> fst (fetch_listings rate_limited_world (pages_config 1) initial_scanner) = []
   \<and> trace (snd (fetch_listings rate_limited_world (pages_config 1) initial_scanner)) =
       [FeedRequest (request_params (pages_config 1) None), Sleep 60]"
  by (simp add: fetch_listings_def pages_config_def empty_config_def get_or_def
        numeral_2_eq_2 rate_limited_world_def two_page_world_def two_page_feed_def
        quiet_world_def initial_scanner_def Let_def emit_def time_sleep_def truthy_def
        request_params_def)

section \<open>Properties of the price cache\<close>

lemma fetch_price_success:
  assumes "price_api w (price_requests s) name = lookup_reply True pf"
    and "pf \<noteq> price_malformed"
  shows "fst (fetch_price w name s) = replied_price pf"
    and "price_cache (snd (fetch_price w name s)) name =
           Some \<lparr>entry_price = replied_price pf,
                 entry_timestamp = time_time w (time_reads s)\<rparr>"
    and "price_requests (snd (fetch_price w name s)) = Suc (price_requests s)"
    and "trace (snd (fetch_price w name s)) = trace s @ [PriceRequest name, Sleep 2.5]"
  using assms
  by (cases pf; simp add: fetch_price_def Let_def read_time_def emit_def time_sleep_def
        replied_price_def)+

lemma fetch_price_failure:
  assumes "price_api w (price_requests s) name = r"
    and "\<forall>pf. r = lookup_reply True pf \<longrightarrow> pf = price_malformed"
  shows "fst (fetch_price w name s) = 0"
    and "price_cache (snd (fetch_price w name s)) = price_cache s"
    and "price_requests (snd (fetch_price w name s)) = Suc (price_requests s)"
    and "trace (snd (fetch_price w name s)) = trace s @ [PriceRequest name]"
  using assms
  by (cases r; simp add: fetch_price_def Let_def emit_def split: price_field.split)+

lemma fetch_price_requests:
  "price_requests (snd (fetch_price w name s)) = Suc (price_requests s)"
  by (cases "price_api w (price_requests s) name")
     (simp_all add: fetch_price_def Let_def emit_def read_time_def time_sleep_def
        split: price_field.split)

lemma get_market_price_hit:
  assumes "price_cache s name = Some e"
    and "time_time w (time_reads s) - entry_timestamp e < 3600"
  shows "fst (get_market_price w name s) = entry_price e"
    and "price_cache (snd (get_market_price w name s)) = price_cache s"
    and "price_requests (snd (get_market_price w name s)) = price_requests s"
    and "trace (snd (get_market_price w name s)) = trace s"
  using assms by (simp_all add: get_market_price_def read_time_def)

lemma after_check_fields [simp]:
  "price_cache (after_check name s) = price_cache s"
  "price_requests (after_check name s) = price_requests s"
  "trace (after_check name s) = trace s"
  by (simp_all add: after_check_def split: option.split)

lemma get_market_price_lookup:
  assumes "needs_lookup w name s"
  shows "get_market_price w name s = fetch_price w name (after_check name s)"
  using assms
  by (cases "price_cache s name")
     (simp_all add: get_market_price_def needs_lookup_def read_time_def after_check_def)

lemma first_lookup_then_hit:
  assumes n: "needs_lookup w name s"
    and api: "price_api w (price_requests s) name = lookup_reply True pf"
    and ok: "pf \<noteq> price_malformed"
    and stored: "price_cache (snd (get_market_price w name s)) name = Some e1"
    and same: "price_cache s2 name = Some e1"
    and within: "time_time w2 (time_reads s2) - entry_timestamp e1 < 3600"
  shows "price_requests (snd (get_market_price w name s)) = Suc (price_requests s)
        \<and> entry_timestamp e1 = time_time w (time_reads (after_check name s))
        \<and> price_requests (snd (get_market_price w2 name s2)) = price_requests s2
        \<and> trace (snd (get_market_price w2 name s2)) = trace s2
        \<and> fst (get_market_price w2 name s2) = fst (get_market_price w name s)"
proof -
  let ?s0 = "after_check name s"
  have g: "get_market_price w name s = fetch_price w name ?s0"
    using n by (rule get_market_price_lookup)
  from api have api0: "price_api w (price_requests ?s0) name = lookup_reply True pf" by simp
  note f = fetch_price_success[OF api0 ok]
  from stored g f(2)
  have e1: "e1 = \<lparr>entry_price = replied_price pf,
                  entry_timestamp = time_time w (time_reads ?s0)\<rparr>" by simp
  note hit = get_market_price_hit[OF same within]
  from g f(1,3) hit(1,3,4) e1 show ?thesis by simp
qed

lemma expired_lookup:
  assumes c: "price_cache s name = Some e"
    and old: "time_time w (time_reads s) - entry_timestamp e \<ge> 3600"
  shows "price_requests (snd (get_market_price w name s)) = Suc (price_requests s)"
    and "price_api w (price_requests s) name = lookup_reply True pf \<and> pf \<noteq> price_malformed
           \<Longrightarrow> fst (get_market_price w name s) = replied_price pf
                \<and> price_cache (snd (get_market_price w name s)) name =
                     Some \<lparr>entry_price = replied_price pf,
                           entry_timestamp = time_time w (Suc (time_reads s))\<rparr>"
    and "(\<forall>pf. price_api w (price_requests s) name = lookup_reply True pf
                  \<longrightarrow> pf = price_malformed)
           \<Longrightarrow> fst (get_market_price w name s) = 0
                \<and> price_cache (snd (get_market_price w name s)) name = Some e"
proof -
  from c old have n: "needs_lookup w name s" by (simp add: needs_lookup_def)
  let ?s0 = "after_check name s"
  have g: "get_market_price w name s = fetch_price w name ?s0"
    using n by (rule get_market_price_lookup)
  have tr: "time_reads ?s0 = Suc (time_reads s)" using c by (simp add: after_check_def)
  from g show "price_requests (snd (get_market_price w name s)) = Suc (price_requests s)"
    by (simp add: fetch_price_requests)
  {
    assume a: "price_api w (price_requests s) name = lookup_reply True pf
                  \<and> pf \<noteq> price_malformed"
    then have api: "price_api w (price_requests ?s0) name = lookup_reply True pf"
      and ok: "pf \<noteq> price_malformed" by simp_all
    from fetch_price_success(1,2)[OF api ok] g tr
    show "fst (get_market_price w name s) = replied_price pf
                \<and> price_cache (snd (get_market_price w name s)) name =
                     Some \<lparr>entry_price = replied_price pf,
                           entry_timestamp = time_time w (Suc (time_reads s))\<rparr>"
      by simp
  }
  {
    assume b: "\<forall>pf. price_api w (price_requests s) name = lookup_reply True pf
                  \<longrightarrow> pf = price_malformed"
    have api: "price_api w (price_requests ?s0) name = price_api w (price_requests s) name"
      by simp
    from fetch_price_failure(1,2)[OF api b] g c
    show "fst (get_market_price w name s) = 0
                \<and> price_cache (snd (get_market_price w name s)) name = Some e"
      by simp
  }
qed

text \<open>
  C6 as stated fails where the lookup after expiry does not succeed: with an entry
  (5, fetched at 0), the clock at 3600 and a price API that raises, the call makes its
  request, returns 0 and leaves the entry (5, 0) in the cache.
\<close>

theorem expired_entry_survives_failed_lookup:
  "price_cache stale_scanner ''AK-47 | Redline (Minimal Wear)''
     = Some \<lparr>entry_price = 5, entry_timestamp = 0\<rparr>
   \<and> time_time late_failing_world (time_reads stale_scanner) - 0 \<ge> 3600
   \<and> trace (snd (get_market_price late_failing_world ''AK-47 | Redline (Minimal Wear)''
                   stale_scanner))
       = [PriceRequest ''AK-47 | Redline (Minimal Wear)'']
   \<and> fst (get_market_price late_failing_world ''AK-47 | Redline (Minimal Wear)''
            stale_scanner) = 0
   \<and> price_cache (snd (get_market_price late_failing_world ''AK-47 | Redline (Minimal Wear)''
                         stale_scanner)) ''AK-47 | Redline (Minimal Wear)''
       = Some \<lparr>entry_price = 5, entry_timestamp = 0\<rparr>"
  by (simp add: get_market_price_def fetch_price_def read_time_def stale_scanner_def
        initial_scanner_def late_failing_world_def quiet_world_def emit_def Let_def)

text \<open>
  C6, amended. (1) When a call of \<^verbatim>\<open>get_market_price\<close> has to look the name up and the
  lookup succeeds, it makes one request and stores an entry; a later call for the same
  name that finds this entry and reads the clock less than 3600 after the entry's
  timestamp makes no request and returns the same price. (2) A call that finds an entry
  whose age is 3600 or more makes one request; when the lookup succeeds, the entry's
  price and timestamp are overwritten with the new price and a fresh reading of the
  clock; when it does not, the call returns 0 and the old entry stays.
\<close>

theorem price_cache_expiry:
  "(needs_lookup w name s
      \<and> price_api w (price_requests s) name = lookup_reply True pf \<and> pf \<noteq> price_malformed
      \<and> price_cache (snd (get_market_price w name s)) name = Some e1
      \<and> price_cache s2 name = Some e1
      \<and> time_time w2 (time_reads s2) - entry_timestamp e1 < 3600
    \<longrightarrow> price_requests (snd (get_market_price w name s)) = Suc (price_requests s)
        \<and> entry_timestamp e1 = time_time w (time_reads (after_check name s))
        \<and> price_requests (snd (get_market_price w2 name s2)) = price_requests s2
        \<and> trace (snd (get_market_price w2 name s2)) = trace s2
        \<and> fst (get_market_price w2 name s2) = fst (get_market_price w name s))
   \<and> (price_cache s name = Some e
        \<and> time_time w (time_reads s) - entry_timestamp e \<ge> 3600
    \<longrightarrow> price_requests (snd (get_market_price w name s)) = Suc (price_requests s)
        \<and> (\<forall>pf. price_api w (price_requests s) name = lookup_reply True pf
                  \<and> pf \<noteq> price_malformed
              \<longrightarrow> fst (get_market_price w name s) = replied_price pf
                \<and> price_cache (snd (get_market_price w name s)) name =
                     Some \<lparr>entry_price = replied_price pf,
                           entry_timestamp = time_time w (Suc (time_reads s))\<rparr>)
        \<and> ((\<forall>pf. price_api w (price_requests s) name = lookup_reply True pf
                  \<longrightarrow> pf = price_malformed)
              \<longrightarrow> fst (get_market_price w name s) = 0
                \<and> price_cache (snd (get_market_price w name s)) name = Some e))"
proof -
  have A: "needs_lookup w name s
      \<and> price_api w (price_requests s) name = lookup_reply True pf \<and> pf \<noteq> price_malformed
      \<and> price_cache (snd (get_market_price w name s)) name = Some e1
      \<and> price_cache s2 name = Some e1
      \<and> time_time w2 (time_reads s2) - entry_timestamp e1 < 3600
    \<longrightarrow> price_requests (snd (get_market_price w name s)) = Suc (price_requests s)
        \<and> entry_timestamp e1 = time_time w (time_reads (after_check name s))
        \<and> price_requests (snd (get_market_price w2 name s2)) = price_requests s2
        \<and> trace (snd (get_market_price w2 name s2)) = trace s2
        \<and> fst (get_market_price w2 name s2) = fst (get_market_price w name s)"
    using first_lookup_then_hit[of w name s pf e1 s2 w2] by blast
  have B: "price_cache s name = Some e
        \<and> time_time w (time_reads s) - entry_timestamp e \<ge> 3600
    \<longrightarrow> price_requests (snd (get_market_price w name s)) = Suc (price_requests s)
        \<and> (\<forall>pf. price_api w (price_requests s) name = lookup_reply True pf
                  \<and> pf \<noteq> price_malformed
              \<longrightarrow> fst (get_market_price w name s) = replied_price pf
                \<and> price_cache (snd (get_market_price w name s)) name =
                     Some \<lparr>entry_price = replied_price pf,
                           entry_timestamp = time_time w (Suc (time_reads s))\<rparr>)
        \<and> ((\<forall>pf. price_api w (price_requests s) name = lookup_reply True pf
                  \<longrightarrow> pf = price_malformed)
              \<longrightarrow> fst (get_market_price w name s) = 0
                \<and> price_cache (snd (get_market_price w name s)) name = Some e)"
    using expired_lookup[of s name e w] by blast
  from A B show ?thesis by (rule conjI)
qed

lemma priced_first_call:
  "get_market_price priced_world ''AK-47 | Redline (Minimal Wear)'' initial_scanner =
     (12.5, initial_scanner\<lparr>price_cache :=
               [''AK-47 | Redline (Minimal Wear)'' \<mapsto>
                  \<lparr>entry_price = 12.5, entry_timestamp = 0\<rparr>],
             time_reads := 1, price_requests := 1,
             trace := [PriceRequest ''AK-47 | Redline (Minimal Wear)'', Sleep 2.5]\<rparr>)"
  by (simp add: get_market_price_def fetch_price_def read_time_def initial_scanner_def
        priced_world_def quiet_world_def emit_def time_sleep_def Let_def)

theorem price_cache_expiry_witness:
  "needs_lookup priced_world ''AK-47 | Redline (Minimal Wear)'' initial_scanner
   \<and> fst (get_market_price priced_world ''AK-47 | Redline (Minimal Wear)'' initial_scanner)
       = 12.5
   \<and> price_requests (snd (get_market_price priced_world ''AK-47 | Redline (Minimal Wear)''
        initial_scanner)) = 1
   \<and> fst (get_market_price priced_world ''AK-47 | Redline (Minimal Wear)''
        (snd (get_market_price priced_world ''AK-47 | Redline (Minimal Wear)''
           initial_scanner))) = 12.5
   \<and> price_requests (snd (get_market_price priced_world ''AK-47 | Redline (Minimal Wear)''
        (snd (get_market_price priced_world ''AK-47 | Redline (Minimal Wear)''
           initial_scanner)))) = 1
   \<and> time_time late_priced_world (time_reads stale_scanner) - 0 \<ge> 3600
   \<and> price_requests (snd (get_market_price late_priced_world
        ''AK-47 | Redline (Minimal Wear)'' stale_scanner)) = 1
   \<and> price_cache (snd (get_market_price late_priced_world
        ''AK-47 | Redline (Minimal Wear)'' stale_scanner)) ''AK-47 | Redline (Minimal Wear)''
       = Some \<lparr>entry_price = 12.5, entry_timestamp = 3601\<rparr>"
proof -
  let ?n = "''AK-47 | Redline (Minimal Wear)''"
  let ?e1 = "\<lparr>entry_price = 12.5, entry_timestamp = 0\<rparr>"
  let ?s1 = "snd (get_market_price priced_world ?n initial_scanner)"
  have h1: "needs_lookup priced_world ?n initial_scanner"
    by (simp add: needs_lookup_def initial_scanner_def)
  have h2: "price_api priced_world (price_requests initial_scanner) ?n
              = lookup_reply True (price_value 12.5)"
    by (simp add: priced_world_def quiet_world_def)
  have h3: "price_cache ?s1 ?n = Some ?e1"
    by (simp add: priced_first_call)
  have tr: "time_reads ?s1 = 1" by (simp add: priced_first_call)
  have "time_time priced_world 1 - entry_timestamp ?e1 < 3600"
    by (simp add: priced_world_def quiet_world_def)
  then have h4: "time_time priced_world (time_reads ?s1) - entry_timestamp ?e1 < 3600"
    by (simp only: tr)
  have h5: "price_cache stale_scanner ?n = Some \<lparr>entry_price = 5, entry_timestamp = 0\<rparr>"
    by (simp add: stale_scanner_def initial_scanner_def)
  have h6: "time_time late_priced_world (time_reads stale_scanner)
              - entry_timestamp \<lparr>entry_price = 5, entry_timestamp = 0\<rparr> \<ge> 3600"
    by (simp add: late_priced_world_def priced_world_def quiet_world_def stale_scanner_def
          initial_scanner_def)
  have h7: "price_api late_priced_world (price_requests stale_scanner) ?n
              = lookup_reply True (price_value 12.5)"
    by (simp add: late_priced_world_def priced_world_def quiet_world_def)
  have h8: "time_time late_priced_world (Suc (time_reads stale_scanner)) = 3601"
    by (simp add: late_priced_world_def priced_world_def quiet_world_def stale_scanner_def
          initial_scanner_def)
  have h9: "price_requests stale_scanner = 0" "price_requests initial_scanner = 0"
    by (simp_all add: stale_scanner_def initial_scanner_def)
  have A: "price_requests ?s1 = Suc (price_requests initial_scanner)
        \<and> price_requests (snd (get_market_price priced_world ?n ?s1)) = price_requests ?s1
        \<and> fst (get_market_price priced_world ?n ?s1)
            = fst (get_market_price priced_world ?n initial_scanner)"
    using price_cache_expiry[of priced_world ?n initial_scanner "price_value 12.5" ?e1 ?s1
            priced_world] h1 h2 h3 h4 by simp
  have B: "price_requests (snd (get_market_price late_priced_world ?n stale_scanner))
             = Suc (price_requests stale_scanner)
        \<and> price_cache (snd (get_market_price late_priced_world ?n stale_scanner)) ?n =
             Some \<lparr>entry_price = replied_price (price_value 12.5),
                   entry_timestamp = time_time late_priced_world
                                       (Suc (time_reads stale_scanner))\<rparr>"
    using price_cache_expiry[of late_priced_world ?n stale_scanner _ _ _ _
            "\<lparr>entry_price = 5, entry_timestamp = 0\<rparr>"] h5 h6 h7 by simp
  have p: "fst (get_market_price priced_world ?n initial_scanner) = 12.5"
    by (simp add: priced_first_call)
  from A B h1 h6 h8 h9 p show ?thesis by (simp add: replied_price_def)
qed

text \<open>
  C10. When \<^verbatim>\<open>get_market_price\<close> has to look the name up and the reply reports success
  with the price 0 or without a price, the call returns 0 after one request followed by
  the cooldown of 2.5, and stores the entry (0, reading of the clock). Any later call
  for the name that finds this entry and reads the clock less than 3600 after that
  reading returns 0 without a request, whatever the price API would answer then.
\<close>

theorem zero_price_is_cached:
  assumes "needs_lookup w name s"
    and "price_api w (price_requests s) name = lookup_reply True pf"
    and "pf = price_missing \<or> pf = price_value 0"
  shows "fst (get_market_price w name s) = 0
         \<and> price_cache (snd (get_market_price w name s)) name =
             Some \<lparr>entry_price = 0,
                   entry_timestamp = time_time w (time_reads (after_check name s))\<rparr>
         \<and> trace (snd (get_market_price w name s)) =
             trace s @ [PriceRequest name, Sleep 2.5]
         \<and> (\<forall>w2 s2. price_cache s2 name = price_cache (snd (get_market_price w name s)) name
                \<and> time_time w2 (time_reads s2)
                    - time_time w (time_reads (after_check name s)) < 3600
              \<longrightarrow> fst (get_market_price w2 name s2) = 0
                \<and> price_requests (snd (get_market_price w2 name s2)) = price_requests s2
                \<and> trace (snd (get_market_price w2 name s2)) = trace s2)"
proof -
  let ?s0 = "after_check name s"
  let ?e = "\<lparr>entry_price = 0, entry_timestamp = time_time w (time_reads ?s0)\<rparr>"
  have g: "get_market_price w name s = fetch_price w name ?s0"
    using assms(1) by (rule get_market_price_lookup)
  from assms(2) have api0: "price_api w (price_requests ?s0) name = lookup_reply True pf"
    by simp
  from assms(3) have ok: "pf \<noteq> price_malformed" and z: "replied_price pf = 0"
    by (auto simp: replied_price_def)
  note f = fetch_price_success[OF api0 ok]
  have r: "fst (get_market_price w name s) = 0" using g f(1) z by simp
  have c: "price_cache (snd (get_market_price w name s)) name = Some ?e"
    using g f(2) z by simp
  have t: "trace (snd (get_market_price w name s)) = trace s @ [PriceRequest name, Sleep 2.5]"
    using g f(4) by simp
  have later: "fst (get_market_price w2 name s2) = 0
                \<and> price_requests (snd (get_market_price w2 name s2)) = price_requests s2
                \<and> trace (snd (get_market_price w2 name s2)) = trace s2"
    if "price_cache s2 name = price_cache (snd (get_market_price w name s)) name
          \<and> time_time w2 (time_reads s2) - time_time w (time_reads ?s0) < 3600" for w2 s2
  proof -
    from that c have c2: "price_cache s2 name = Some ?e" by simp
    from that have t2: "time_time w2 (time_reads s2) - entry_timestamp ?e < 3600" by simp
    from get_market_price_hit(1,3,4)[OF c2 t2] show ?thesis by simp
  qed
  from r c t later show ?thesis by blast
qed

lemma zero_first_call:
  "get_market_price zero_price_world ''AWP | Asiimov (Field-Tested)'' initial_scanner =
     (0, initial_scanner\<lparr>price_cache :=
               [''AWP | Asiimov (Field-Tested)'' \<mapsto>
                  \<lparr>entry_price = 0, entry_timestamp = 0\<rparr>],
             time_reads := 1, price_requests := 1,
             trace := [PriceRequest ''AWP | Asiimov (Field-Tested)'', Sleep 2.5]\<rparr>)"
  by (simp add: get_market_price_def fetch_price_def read_time_def initial_scanner_def
        zero_price_world_def quiet_world_def emit_def time_sleep_def Let_def)

theorem zero_price_is_cached_witness:
  "needs_lookup zero_price_world ''AWP | Asiimov (Field-Tested)'' initial_scanner
   \<and> price_api zero_price_world (price_requests initial_scanner)
        ''AWP | Asiimov (Field-Tested)'' = lookup_reply True price_missing
   \<and> price_api zero_price_world 1 ''AWP | Asiimov (Field-Tested)''
       = lookup_reply True (price_value 7)
   \<and> fst (get_market_price zero_price_world ''AWP | Asiimov (Field-Tested)''
            initial_scanner) = 0
   \<and> fst (get_market_price zero_price_world ''AWP | Asiimov (Field-Tested)''
        (snd (get_market_price zero_price_world ''AWP | Asiimov (Field-Tested)''
           initial_scanner))) = 0
   \<and> price_requests (snd (get_market_price zero_price_world ''AWP | Asiimov (Field-Tested)''
        (snd (get_market_price zero_price_world ''AWP | Asiimov (Field-Tested)''
           initial_scanner)))) = 1"
proof -
  let ?n = "''AWP | Asiimov (Field-Tested)''"
  let ?s1 = "snd (get_market_price zero_price_world ?n initial_scanner)"
  have h1: "needs_lookup zero_price_world ?n initial_scanner"
    by (simp add: needs_lookup_def initial_scanner_def)
  have h2: "price_api zero_price_world (price_requests initial_scanner) ?n
              = lookup_reply True price_missing"
    by (simp add: zero_price_world_def quiet_world_def initial_scanner_def)
  have h3: "price_api zero_price_world 1 ?n = lookup_reply True (price_value 7)"
    by (simp add: zero_price_world_def quiet_world_def)
  have tr: "time_reads ?s1 = 1" by (simp add: zero_first_call)
  have tr0: "time_reads (after_check ?n initial_scanner) = 0"
    by (simp add: after_check_def initial_scanner_def)
  have "time_time zero_price_world 1 - time_time zero_price_world 0 < 3600"
    by (simp add: zero_price_world_def quiet_world_def)
  then have h4: "time_time zero_price_world (time_reads ?s1)
              - time_time zero_price_world (time_reads (after_check ?n initial_scanner)) < 3600"
    by (simp only: tr tr0)
  have h5: "price_requests ?s1 = 1" by (simp add: zero_first_call)
  from zero_price_is_cached[of zero_price_world ?n initial_scanner price_missing] h1 h2
  have "fst (get_market_price zero_price_world ?n initial_scanner) = 0
        \<and> (\<forall>w2 s2. price_cache s2 ?n = price_cache ?s1 ?n
                \<and> time_time w2 (time_reads s2)
                    - time_time zero_price_world (time_reads (after_check ?n initial_scanner))
                    < 3600
              \<longrightarrow> fst (get_market_price w2 ?n s2) = 0
                \<and> price_requests (snd (get_market_price w2 ?n s2)) = price_requests s2
                \<and> trace (snd (get_market_price w2 ?n s2)) = trace s2)"
    by simp
  then have "fst (get_market_price zero_price_world ?n initial_scanner) = 0"
    and "fst (get_market_price zero_price_world ?n ?s1) = 0
         \<and> price_requests (snd (get_market_price zero_price_world ?n ?s1)) = price_requests ?s1"
    using h4 by blast+
  with h1 h2 h3 h5 show ?thesis by simp
qed

section \<open>Properties of the strategies\<close>

lemma analyze_high_overpay_deals_append:
  "analyze_high_overpay_deals cfg (xs @ ys) =
     analyze_high_overpay_deals cfg xs @ analyze_high_overpay_deals cfg ys"
  by (simp add: analyze_high_overpay_deals_def Let_def)

lemma high_overpay_item_targets:
  "high_overpay_item (with_targets cfg T) m f item = high_overpay_item cfg m f item"
  by (simp add: high_overpay_item_def with_targets_def Let_def)

lemma decoration_price_minor_units: "decoration_price = sticker_minor_units"
  by (rule ext)
     (simp add: decoration_price_def sticker_minor_units_def get_or_def Let_def
        split: option.split)

lemma decorations_value_stickers:
  "decorations_value (i_stickers (l_item item)) = total_sticker_value item"
  by (simp add: decorations_value_def total_sticker_value_def decoration_price_minor_units)

text \<open>
  C8. For a listing that is no souvenir, passes the weapon filter and has a positive
  base price, the high-overpay strategy emits exactly one deal, whose profit is the
  total sticker value in major units, if the listing price is at most
  \<open>base_price * (1 + max_over_base_percent / 100)\<close>, computed in floats, and the sticker
  value is at least the configured floor, and emits nothing otherwise; the listing's
  result does not depend on its neighbours in the batch, and the table of profit tiers
  has no influence.
\<close>

theorem high_overpay_admission:
  assumes "\<not> i_is_souvenir (l_item item)"
    and "passes_weapon_filter cfg item"
    and "0 < base_price_of item"
  shows "(analyze_high_overpay_deals cfg [item] =
            (if listing_price_of item
                  \<le> fmul (base_price_of item)
                      (fadd 1 (fdiv (get_or (overpay_max_price_above_base_percentage cfg) 5.0)
                                 100))
                \<and> total_sticker_value item \<ge> get_or (overpay_min_sticker_value cfg) 50.0
             then [\<lparr>deal_listing_id = l_id item,
                    deal_strategy = ''High Overpay Potential'',
                    deal_name = name_of item,
                    deal_image_url = i_icon_url (l_item item),
                    deal_profit = total_sticker_value item,
                    deal_url = item_url item,
                    deal_details =
                      [(''Listing Price'', Number (listing_price_of item)),
                       (''Base Skin Value'', Number (base_price_of item)),
                       (''Raw Sticker Value'', Number (total_sticker_value item)),
                       (''Stickers'', Names (map d_name (i_stickers (l_item item))))]\<rparr>]
             else []))
         \<and> analyze_high_overpay_deals cfg (before @ item # after) =
             analyze_high_overpay_deals cfg before @ analyze_high_overpay_deals cfg [item]
               @ analyze_high_overpay_deals cfg after
         \<and> analyze_high_overpay_deals (with_targets cfg T) [item] =
             analyze_high_overpay_deals cfg [item]"
proof -
  from assms(2) obtain included where inc: "included_weapons cfg = Some included"
    and any: "any_weapon_in included (get_or (i_market_hash_name (l_item item)) [])"
    by (auto simp: passes_weapon_filter_def name_of_def split: option.splits)
  from assms(3) have bp: "fdiv (float_of_int (get_or (l_base_price item) 0)) 100 \<noteq> 0"
    by (auto simp: base_price_of_def)
  have one: "analyze_high_overpay_deals cfg [item] =
            (if listing_price_of item
                  \<le> fmul (base_price_of item)
                      (fadd 1 (fdiv (get_or (overpay_max_price_above_base_percentage cfg) 5.0)
                                 100))
                \<and> total_sticker_value item \<ge> get_or (overpay_min_sticker_value cfg) 50.0
             then [\<lparr>deal_listing_id = l_id item,
                    deal_strategy = ''High Overpay Potential'',
                    deal_name = name_of item,
                    deal_image_url = i_icon_url (l_item item),
                    deal_profit = total_sticker_value item,
                    deal_url = item_url item,
                    deal_details =
                      [(''Listing Price'', Number (listing_price_of item)),
                       (''Base Skin Value'', Number (base_price_of item)),
                       (''Raw Sticker Value'', Number (total_sticker_value item)),
                       (''Stickers'', Names (map d_name (i_stickers (l_item item))))]\<rparr>]
             else [])"
    using assms(1) inc any bp
    by (simp add: analyze_high_overpay_deals_def high_overpay_item_def Let_def
          listing_price_of_def base_price_of_def name_of_def not_le not_less
          decorations_value_stickers)
  have two: "analyze_high_overpay_deals cfg (before @ item # after) =
             analyze_high_overpay_deals cfg before @ analyze_high_overpay_deals cfg [item]
               @ analyze_high_overpay_deals cfg after"
    using analyze_high_overpay_deals_append[of cfg before "[item] @ after"]
      analyze_high_overpay_deals_append[of cfg "[item]" after] by simp
  have three: "analyze_high_overpay_deals (with_targets cfg T) [item] =
             analyze_high_overpay_deals cfg [item]"
    by (simp add: analyze_high_overpay_deals_def Let_def high_overpay_item_targets)
       (simp add: with_targets_def)
  from one two three show ?thesis by blast
qed

lemma overpay_listing_prices:
  "base_price_of overpay_listing = 100" "listing_price_of overpay_listing = 102"
  "total_sticker_value overpay_listing = 60"
  "base_price_of other_listing = 100" "listing_price_of other_listing = 102"
  "total_sticker_value other_listing = 60"
  "base_price_of boundary_listing = fdiv (float_of_int 380) 100"
  "listing_price_of boundary_listing = fdiv (float_of_int 399) 100"
  "total_sticker_value boundary_listing = 60"
  by (simp_all add: base_price_of_def listing_price_of_def total_sticker_value_def
        sticker_minor_units_def overpay_listing_def other_listing_def boundary_listing_def
        get_or_def cents_to_major)

lemma overpay_listing_filter:
  "passes_weapon_filter weapons_config overpay_listing"
  "passes_weapon_filter weapons_config other_listing"
  "passes_weapon_filter weapons_config boundary_listing"
  "\<not> i_is_souvenir (l_item overpay_listing)"
  "\<not> i_is_souvenir (l_item other_listing)"
  "\<not> i_is_souvenir (l_item boundary_listing)"
  by (simp_all add: passes_weapon_filter_def weapons_config_def empty_config_def name_of_def
        overpay_listing_def other_listing_def boundary_listing_def get_or_def
        any_weapon_in_def)

theorem high_overpay_admission_witness:
  "\<not> i_is_souvenir (l_item overpay_listing)
   \<and> passes_weapon_filter weapons_config overpay_listing
   \<and> base_price_of overpay_listing = 100 \<and> listing_price_of overpay_listing = 102
   \<and> total_sticker_value overpay_listing = 60
   \<and> get_or (overpay_max_price_above_base_percentage weapons_config) 5.0 = 5
   \<and> get_or (overpay_min_sticker_value weapons_config) 50.0 = 50
   \<and> fmul 100 (fadd 1 (fdiv 5 100)) = 105
   \<and> map deal_profit (analyze_high_overpay_deals weapons_config [overpay_listing]) = [60]
   \<and> map deal_listing_id (analyze_high_overpay_deals weapons_config [overpay_listing])
       = [Some ''L1'']
   \<and> 0 < base_price_of boundary_listing
   \<and> fmul (base_price_of boundary_listing) (fadd 1 (fdiv 5 100))
       < listing_price_of boundary_listing
   \<and> analyze_high_overpay_deals weapons_config [boundary_listing] = []"
proof -
  have h5: "get_or (overpay_max_price_above_base_percentage weapons_config) 5 = 5"
      "get_or (overpay_min_sticker_value weapons_config) 50 = 50"
    by (simp_all add: weapons_config_def empty_config_def get_or_def)
  have h6: "l_id overpay_listing = Some ''L1''"
    by (simp add: overpay_listing_def)
  have b1: "0 < base_price_of boundary_listing"
    by (simp only: overpay_listing_prices) (simp add: float_eval)
  have b2: "fmul (base_price_of boundary_listing) (fadd 1 (fdiv 5 100))
              < listing_price_of boundary_listing"
    by (simp only: overpay_listing_prices cap_of_380 cents_to_major) simp
  have a: "map deal_profit (analyze_high_overpay_deals weapons_config [overpay_listing]) = [60]
     \<and> map deal_listing_id (analyze_high_overpay_deals weapons_config [overpay_listing])
         = [Some ''L1'']"
    using high_overpay_admission[of overpay_listing weapons_config "[]" "[]" "[]"]
      overpay_listing_filter(1,4)
    by (simp add: overpay_listing_prices h5 h6 cap_of_100)
  have b: "analyze_high_overpay_deals weapons_config [boundary_listing] = []"
    using high_overpay_admission[of boundary_listing weapons_config "[]" "[]" "[]"]
      overpay_listing_filter(3,6) b1 b2
    by (simp add: h5)
  from a b b1 b2 h5 overpay_listing_filter(1,4) cap_of_100 show ?thesis
    by (simp add: overpay_listing_prices(1-3))
qed

lemma tier_range_not_positive:
  assumes "index_of wear wear_tiers = Some idx"
    and "wear \<noteq> ''Factory New''"
    and "map_of wear_tier_min_floats wear = Some wear_min_float"
    and "map_of wear_tier_min_floats (item_before wear_tiers idx) = Some wear_max_float"
  shows "fsub wear_max_float wear_min_float \<le> 0"
proof -
  from assms have "wear_max_float - wear_min_float \<le> 0"
    unfolding wear_tier_min_floats_def wear_literals
    by (auto simp: wear_tiers_def item_before_def split: if_splits)
  then show ?thesis by (simp add: fsub_def double_round_nonpos)
qed

lemma low_float_item_skips:
  "low_float_item w cfg min_gap threshold item s = ([], s)"
  by (auto simp: low_float_item_def Let_def dest: tier_range_not_positive
        split: option.split)

lemma analyze_low_float_deals_empty:
  "analyze_low_float_deals w cfg listings s = ([], s)"
  by (induction listings)
     (simp_all add: analyze_low_float_deals_def Let_def low_float_item_skips)

text \<open>
  C2, evaluated on the code. A Field-Tested listing with float 0.151 lies at the
  fraction 1/230 of its tier's range from 0.15 to 0.38, within the default top 10
  percent; the strategy nevertheless skips it before any price is looked up, although
  the better tier sells for three times the base price: the code takes the lowest float
  of the next better tier (0.07) as the upper end of the range, so the range is
  negative and the guard on a non-positive range always fires.
\<close>

theorem low_float_skips_top_percentile_listing:
  "percentile_in_tier ''Field-Tested'' 0.151 = Some (1 / 230)
   \<and> (1 / 230 :: real) \<le> get_or (low_float_top_percentile_threshold upgrade_config) 10.0 / 100
   \<and> passes_weapon_filter upgrade_config low_float_listing
   \<and> fst (get_market_price upgrade_world ''AK-47 | Redline (Minimal Wear)'' initial_scanner)
       = 150
   \<and> analyze_low_float_deals upgrade_world upgrade_config [low_float_listing] initial_scanner
       = ([], initial_scanner)"
proof -
  have a: "percentile_in_tier ''Field-Tested'' 0.151 = Some (1 / 230)"
    by (simp add: percentile_in_tier_def tier_upper_bound_def wear_tiers_def
          tier_lower_bounds_def)
  have b: "(1 / 230 :: real)
             \<le> get_or (low_float_top_percentile_threshold upgrade_config) 10.0 / 100"
    by (simp add: upgrade_config_def weapons_config_def empty_config_def get_or_def)
  have c: "passes_weapon_filter upgrade_config low_float_listing"
    by (simp add: passes_weapon_filter_def upgrade_config_def weapons_config_def
          empty_config_def name_of_def low_float_listing_def get_or_def any_weapon_in_def)
  have d: "fst (get_market_price upgrade_world ''AK-47 | Redline (Minimal Wear)''
                  initial_scanner) = 150"
    by (simp add: get_market_price_def fetch_price_def read_time_def initial_scanner_def
          upgrade_world_def quiet_world_def emit_def time_sleep_def Let_def)
  have e: "analyze_low_float_deals upgrade_world upgrade_config [low_float_listing]
             initial_scanner = ([], initial_scanner)"
    by (rule analyze_low_float_deals_empty)
  from a b c d e show ?thesis by simp
qed

lemma wear_min_float_nonzero:
  assumes "map_of wear_tier_min_floats wear = Some wmin" and "wear \<noteq> ''Factory New''"
  shows "wmin \<noteq> 0" and "wear \<noteq> []"
  using assms unfolding wear_tier_min_floats_def wear_literals
  by (auto split: if_splits)

lemma weapon_filter_default:
  "any_weapon_in (get_or (included_weapons cfg) []) (name_of item)
     = passes_weapon_filter cfg item"
  by (simp add: passes_weapon_filter_def get_or_def any_weapon_in_def split: option.split)

lemma analyze_float_tier_upgrade_single:
  "analyze_float_tier_upgrade w cfg [item] s =
     float_tier_upgrade_item w cfg (max_premium_of cfg) (proximity_threshold_of cfg) item s"
  by (simp add: analyze_float_tier_upgrade_def Let_def max_premium_of_def
        proximity_threshold_of_def split: prod.split)

lemma float_tier_upgrade_item_profits:
  assumes "i_wear_name (l_item item) = Some wear"
    and "wear \<noteq> ''Factory New''"
    and "\<not> i_is_souvenir (l_item item)"
    and "i_float_value (l_item item) = Some fv"
    and "map_of wear_tier_min_floats wear = Some wmin"
    and "index_of wear wear_tiers = Some idx"
  shows "map deal_profit (fst (float_tier_upgrade_item w cfg mp thr item s)) =
     (if name_of item \<noteq> [] \<and> fv \<noteq> 0 \<and> passes_weapon_filter cfg item
         \<and> fv < fadd wmin thr
         \<and> \<not> (base_price_of item > 0
               \<and> listing_price_of item > fmul (base_price_of item) (fadd 1 mp))
         \<and> fst (get_market_price w (next_tier_name item idx) s) \<noteq> 0
         \<and> is_deal_profitable cfg
              (fsub (fst (get_market_price w (next_tier_name item idx) s))
                 (listing_price_of item))
              (listing_price_of item)
      then [fsub (fst (get_market_price w (next_tier_name item idx) s))
              (listing_price_of item)]
      else [])"
  using assms wear_min_float_nonzero[OF assms(5) assms(2)]
  by (simp add: float_tier_upgrade_item_def Let_def case_prod_beta
        weapon_filter_default[unfolded name_of_def] name_of_def base_price_of_def
        listing_price_of_def next_tier_name_def)

lemma upgrade_next_tier_name:
  "next_tier_name low_float_listing 2 = ''AK-47 | Redline (Minimal Wear)''"
  "next_tier_name premium_listing 2 = ''AK-47 | Redline (Minimal Wear)''"
  "next_tier_name overpay_listing 2 = ''AK-47 | Redline (Minimal Wear)''"
  by (simp_all add: next_tier_name_def name_of_def low_float_listing_def premium_listing_def
        overpay_listing_def get_or_def in_parens_def item_before_def wear_tiers_def)

lemma upgrade_lookup:
  "fst (get_market_price upgrade_world ''AK-47 | Redline (Minimal Wear)'' initial_scanner)
     = 150"
  by (simp add: get_market_price_def fetch_price_def read_time_def initial_scanner_def
        upgrade_world_def quiet_world_def emit_def time_sleep_def Let_def)

lemma upgrade_settings:
  "proximity_threshold_of upgrade_config = double_round 0.008"
  "max_premium_of upgrade_config = fdiv 3 100"
  by (simp_all add: proximity_threshold_of_def max_premium_of_def upgrade_config_def
        weapons_config_def empty_config_def get_or_def)

lemma proximity_examples:
  "double_round 0.151 < fadd (double_round 0.15) (double_round 0.008)"
  "\<not> double_round 0.20 < fadd (double_round 0.15) (double_round 0.008)"
  by (simp_all add: float_eval)

lemma premium_examples:
  "fmul 50 (fadd 1 (fdiv 3 100)) = 103 / 2"
  "fsub 150 50 = 100" "fsub 150 60 = 90" "fsub 150 102 = 48"
  by (simp_all add: float_eval)

lemma upgrade_listings:
  "i_wear_name (l_item low_float_listing) = Some ''Field-Tested''"
  "\<not> i_is_souvenir (l_item low_float_listing)"
  "i_float_value (l_item low_float_listing) = Some (double_round 0.151)"
  "listing_price_of low_float_listing = 50"
  "base_price_of low_float_listing = 50"
  "name_of low_float_listing \<noteq> []"
  "passes_weapon_filter upgrade_config low_float_listing"
  "i_wear_name (l_item premium_listing) = Some ''Field-Tested''"
  "\<not> i_is_souvenir (l_item premium_listing)"
  "i_float_value (l_item premium_listing) = Some (double_round 0.151)"
  "listing_price_of premium_listing = 60"
  "base_price_of premium_listing = 50"
  "name_of premium_listing \<noteq> []"
  "passes_weapon_filter upgrade_config premium_listing"
  "i_wear_name (l_item overpay_listing) = Some ''Field-Tested''"
  "i_float_value (l_item overpay_listing) = Some (double_round 0.20)"
  by (simp_all add: low_float_listing_def premium_listing_def overpay_listing_def
        listing_price_of_def base_price_of_def name_of_def passes_weapon_filter_def
        upgrade_config_def weapons_config_def empty_config_def get_or_def any_weapon_in_def
        cents_to_major)

lemma upgrade_tier:
  "map_of wear_tier_min_floats ''Field-Tested'' = Some (double_round 0.15)"
  "index_of ''Field-Tested'' wear_tiers = Some 2"
  "''Field-Tested'' \<noteq> ''Factory New''"
  by (simp_all add: wear_tier_min_floats_def wear_tiers_def)

lemma upgrade_profitable:
  "is_deal_profitable upgrade_config 100 50"
  "is_deal_profitable upgrade_config 90 60"
  by (simp_all add: is_deal_profitable_def upgrade_config_def weapons_config_def
        empty_config_def get_or_def example_tiers_def)

text \<open>
  C9 as stated fails where a check of the strategy other than the proximity stops the
  listing: a Field-Tested listing, no souvenir, with float 0.151 inside the proximity of
  0.008 above 0.15, offered at 60.00 over a base price of 50.00, while the next better
  tier sells for 150.00. The profit of 90.00 on 60.00 is accepted by
  \<^verbatim>\<open>is_deal_profitable\<close>, yet no deal is emitted, because the listing price exceeds
  the base price by more than the premium of 3 percent.
\<close>

theorem premium_cap_blocks_accepted_profit:
  "i_wear_name (l_item premium_listing) = Some ''Field-Tested''
   \<and> \<not> i_is_souvenir (l_item premium_listing)
   \<and> i_float_value (l_item premium_listing) = Some (double_round 0.151)
   \<and> double_round 0.151
       < fadd (double_round 0.15) (proximity_threshold_of upgrade_config)
   \<and> float_tier_upgrade_enabled upgrade_config
   \<and> listing_price_of premium_listing = 60
   \<and> fst (get_market_price upgrade_world (next_tier_name premium_listing 2) initial_scanner)
       = 150
   \<and> is_deal_profitable upgrade_config (fsub 150 60) 60
   \<and> fst (analyze_float_tier_upgrade upgrade_world upgrade_config [premium_listing]
            initial_scanner) = []"
proof -
  have en: "float_tier_upgrade_enabled upgrade_config"
    by (simp add: float_tier_upgrade_enabled_def upgrade_config_def)
  have px: "double_round 0.151
              < fadd (double_round 0.15) (proximity_threshold_of upgrade_config)"
    by (simp only: upgrade_settings proximity_examples)
  have lk: "fst (get_market_price upgrade_world (next_tier_name premium_listing 2)
                   initial_scanner) = 150"
    by (simp only: upgrade_next_tier_name upgrade_lookup)
  have ok: "is_deal_profitable upgrade_config (fsub 150 60) 60"
    by (simp only: premium_examples upgrade_profitable)
  have cap: "fmul (base_price_of premium_listing) (fadd 1 (max_premium_of upgrade_config))
               < listing_price_of premium_listing"
    by (simp only: upgrade_listings upgrade_settings premium_examples, simp?)
  have bp: "0 < base_price_of premium_listing"
    by (simp only: upgrade_listings, simp?)
  have "map deal_profit (fst (analyze_float_tier_upgrade upgrade_world upgrade_config
          [premium_listing] initial_scanner)) = []"
    using float_tier_upgrade_item_profits[OF upgrade_listings(8) upgrade_tier(3)
            upgrade_listings(9) upgrade_listings(10) upgrade_tier(1) upgrade_tier(2),
            of upgrade_world upgrade_config "max_premium_of upgrade_config"
            "proximity_threshold_of upgrade_config" initial_scanner] cap bp
    by (simp add: analyze_float_tier_upgrade_single)
  then have no: "fst (analyze_float_tier_upgrade upgrade_world upgrade_config
                        [premium_listing] initial_scanner) = []"
    by simp
  from upgrade_listings(8-11) px en lk ok no show ?thesis by simp
qed

text \<open>
  C9, amended. For a listing of the float-tier-upgrade strategy that is no souvenir and
  whose wear tier is a known one other than Factory New: a deal is emitted only if the
  float is less than the lowest float of the listing's own tier plus the proximity
  threshold; the profit of an emitted deal is the market price of the next better tier
  minus the listing price; and a deal is emitted iff the listing has a name, a float
  other than 0, passes the weapon filter and the proximity test, is not priced above
  its positive base price by more than the configured premium, the next tier has a
  price other than 0, and \<^verbatim>\<open>is_deal_profitable\<close> accepts that profit with the listing
  price as base. All arithmetic is that of floats.
\<close>

theorem float_tier_upgrade_emission:
  assumes "i_wear_name (l_item item) = Some wear"
    and "wear \<noteq> ''Factory New''"
    and "\<not> i_is_souvenir (l_item item)"
    and "i_float_value (l_item item) = Some fv"
    and "map_of wear_tier_min_floats wear = Some wmin"
    and "index_of wear wear_tiers = Some idx"
    and "next_tier_price = fst (get_market_price w (next_tier_name item idx) s)"
    and "deals = fst (analyze_float_tier_upgrade w cfg [item] s)"
    and "profit = fsub next_tier_price (listing_price_of item)"
  shows "(deals \<noteq> [] \<longrightarrow> fv < fadd wmin (proximity_threshold_of cfg))
         \<and> (\<forall>d \<in> set deals. deal_profit d = profit)
         \<and> (deals \<noteq> [] \<longleftrightarrow>
              name_of item \<noteq> [] \<and> fv \<noteq> 0 \<and> passes_weapon_filter cfg item
              \<and> fv < fadd wmin (proximity_threshold_of cfg)
              \<and> \<not> (base_price_of item > 0
                    \<and> listing_price_of item
                        > fmul (base_price_of item) (fadd 1 (max_premium_of cfg)))
              \<and> next_tier_price \<noteq> 0
              \<and> is_deal_profitable cfg profit (listing_price_of item))
         \<and> (deals = [] \<or> map deal_profit deals = [profit])"
proof -
  have m: "map deal_profit deals =
     (if name_of item \<noteq> [] \<and> fv \<noteq> 0 \<and> passes_weapon_filter cfg item
         \<and> fv < fadd wmin (proximity_threshold_of cfg)
         \<and> \<not> (base_price_of item > 0
               \<and> listing_price_of item
                   > fmul (base_price_of item) (fadd 1 (max_premium_of cfg)))
         \<and> next_tier_price \<noteq> 0
         \<and> is_deal_profitable cfg profit (listing_price_of item)
      then [profit] else [])"
    using float_tier_upgrade_item_profits[OF assms(1-6), of w cfg "max_premium_of cfg"
            "proximity_threshold_of cfg" s] assms(7-9)
    by (simp only: analyze_float_tier_upgrade_single)
  have e: "(deals = []) = (map deal_profit deals = [])" by simp
  have a: "deals \<noteq> [] \<longrightarrow> fv < fadd wmin (proximity_threshold_of cfg)"
    unfolding e m by (simp split: if_splits)
  have "set (map deal_profit deals) \<subseteq> {profit}"
    unfolding m by auto
  then have b: "\<forall>d \<in> set deals. deal_profit d = profit" by auto
  have c: "deals \<noteq> [] \<longleftrightarrow>
              name_of item \<noteq> [] \<and> fv \<noteq> 0 \<and> passes_weapon_filter cfg item
              \<and> fv < fadd wmin (proximity_threshold_of cfg)
              \<and> \<not> (base_price_of item > 0
                    \<and> listing_price_of item
                        > fmul (base_price_of item) (fadd 1 (max_premium_of cfg)))
              \<and> next_tier_price \<noteq> 0
              \<and> is_deal_profitable cfg profit (listing_price_of item)"
    unfolding e m by simp
  have d: "deals = [] \<or> map deal_profit deals = [profit]"
    unfolding e m by simp
  from a b c d show ?thesis by blast
qed

theorem float_tier_upgrade_emission_witness:
  "i_wear_name (l_item low_float_listing) = Some ''Field-Tested''
   \<and> i_float_value (l_item low_float_listing) = Some (double_round 0.151)
   \<and> map_of wear_tier_min_floats ''Field-Tested'' = Some (double_round 0.15)
   \<and> proximity_threshold_of upgrade_config = double_round 0.008
   \<and> double_round 0.151 < fadd (double_round 0.15) (double_round 0.008)
   \<and> listing_price_of low_float_listing = 50
   \<and> is_deal_profitable upgrade_config (fsub 150 50) 50
   \<and> map deal_profit
        (fst (analyze_float_tier_upgrade upgrade_world upgrade_config [low_float_listing]
                initial_scanner)) = [100]
   \<and> i_float_value (l_item overpay_listing) = Some (double_round 0.20)
   \<and> \<not> double_round 0.20 < fadd (double_round 0.15) (double_round 0.008)
   \<and> fst (analyze_float_tier_upgrade upgrade_world upgrade_config [overpay_listing]
            initial_scanner) = []"
proof -
  let ?deals = "fst (analyze_float_tier_upgrade upgrade_world upgrade_config
                       [low_float_listing] initial_scanner)"
  let ?far = "fst (analyze_float_tier_upgrade upgrade_world upgrade_config
                       [overpay_listing] initial_scanner)"
  have h7: "150 = fst (get_market_price upgrade_world (next_tier_name low_float_listing 2)
                         initial_scanner)"
    by (simp only: upgrade_next_tier_name upgrade_lookup)
  have o7: "150 = fst (get_market_price upgrade_world (next_tier_name overpay_listing 2)
                         initial_scanner)"
    by (simp only: upgrade_next_tier_name upgrade_lookup)
  have px: "double_round 0.151
              < fadd (double_round 0.15) (proximity_threshold_of upgrade_config)"
    by (simp only: upgrade_settings proximity_examples)
  have nx: "\<not> double_round 0.20
              < fadd (double_round 0.15) (proximity_threshold_of upgrade_config)"
    by (simp only: upgrade_settings proximity_examples, simp?)
  have cap: "\<not> listing_price_of low_float_listing
               > fmul (base_price_of low_float_listing)
                   (fadd 1 (max_premium_of upgrade_config))"
    by (simp only: upgrade_listings upgrade_settings premium_examples, simp?)
  have ok: "is_deal_profitable upgrade_config (fsub 150 (listing_price_of low_float_listing))
              (listing_price_of low_float_listing)"
    by (simp only: upgrade_listings premium_examples upgrade_profitable)
  have nz: "double_round 0.151 \<noteq> 0"
    by (simp only: float_literals, simp?)
  from float_tier_upgrade_emission[OF upgrade_listings(1) upgrade_tier(3)
         upgrade_listings(2) upgrade_listings(3) upgrade_tier(1) upgrade_tier(2) h7
         refl refl, of upgrade_config]
    px cap ok nz upgrade_listings(6,7)
  have "?deals \<noteq> [] \<and> (?deals = []
          \<or> map deal_profit ?deals = [fsub 150 (listing_price_of low_float_listing)])"
    by auto
  then have r: "map deal_profit ?deals = [100]"
    by (auto simp only: upgrade_listings premium_examples)
  from float_tier_upgrade_emission[OF upgrade_listings(15) upgrade_tier(3)
         overpay_listing_filter(4) upgrade_listings(16) upgrade_tier(1) upgrade_tier(2) o7
         refl refl, of upgrade_config] nx
  have far: "?far = []" by blast
  have ok': "is_deal_profitable upgrade_config (fsub 150 50) 50"
    by (simp only: premium_examples upgrade_profitable)
  from upgrade_listings(1,3,4,16) upgrade_tier(1) upgrade_settings(1) proximity_examples
    ok' r far
  show ?thesis by simp
qed

section \<open>Properties of the scan loop\<close>

lemma same_bookkeeping_refl [simp]: "same_bookkeeping s s"
  by (simp add: same_bookkeeping_def)

lemma same_bookkeeping_trans:
  "same_bookkeeping s s1 \<Longrightarrow> same_bookkeeping s1 s2 \<Longrightarrow> same_bookkeeping s s2"
  by (simp add: same_bookkeeping_def)

lemma fetch_pages_bookkeeping:
  "same_bookkeeping s (snd (fetch_pages w cfg n cursor all_items s))"
proof (induction n arbitrary: cursor all_items s)
  case 0
  show ?case by simp
next
  case (Suc n)
  let ?s1 = "emit (FeedRequest (request_params cfg cursor))
               (s\<lparr>feed_requests := Suc (feed_requests s)\<rparr>)"
  have step: "same_bookkeeping s (snd (fetch_pages w cfg n c items (time_sleep d ?s1)))"
    for c items d
    using Suc.IH[of "time_sleep d ?s1" c items]
    by (simp add: same_bookkeeping_def emit_def time_sleep_def)
  have stop: "same_bookkeeping s ?s1"
    by (simp add: same_bookkeeping_def emit_def)
  show ?case
    apply (subst fetch_pages.simps(2))
    apply (simp only: Let_def)
    apply (simp add: step stop split: http_result.split body.split option.split)
    done
qed

lemma fetch_listings_bookkeeping:
  "same_bookkeeping s (snd (fetch_listings w cfg s))"
  by (simp add: fetch_listings_def fetch_pages_bookkeeping)

lemma get_market_price_bookkeeping:
  "same_bookkeeping s (snd (get_market_price w name s))"
  by (simp add: get_market_price_def fetch_price_def read_time_def emit_def time_sleep_def
        Let_def same_bookkeeping_def
        split: option.split lookup_result.split price_field.split)

lemma float_tier_upgrade_item_bookkeeping:
  "same_bookkeeping s (snd (float_tier_upgrade_item w cfg mp thr item s))"
  by (simp add: float_tier_upgrade_item_def Let_def case_prod_beta
        get_market_price_bookkeeping split: option.split)

lemma for_listings_bookkeeping:
  assumes "\<And>item s. same_bookkeeping s (snd (body item s))"
  shows "same_bookkeeping s (snd (for_listings body listings s))"
proof (induction listings arbitrary: s)
  case Nil
  show ?case by simp
next
  case (Cons item listings)
  from assms[of s item] Cons[of "snd (body item s)"]
  show ?case
    by (simp add: case_prod_beta) (rule same_bookkeeping_trans)
qed

lemma run_strategies_bookkeeping:
  "same_bookkeeping s (snd (run_strategies w cfg listings s))"
  by (simp add: run_strategies_def Let_def case_prod_beta analyze_low_float_deals_empty
        analyze_float_tier_upgrade_def for_listings_bookkeeping
        float_tier_upgrade_item_bookkeeping)

lemma run_strategies_overpay:
  "analyze_high_overpay_deals cfg listings \<noteq> []
     \<Longrightarrow> fst (run_strategies w cfg listings s) \<noteq> []"
  by (simp add: run_strategies_def Let_def case_prod_beta)

lemma scan_cycle_seen:
  "seen_listing_ids (scan_cycle w cfg s) =
     (if handoff_raises w cfg s then seen_listing_ids s
      else seen_listing_ids s \<union> set (map l_id (fst (fetch_listings w cfg s))))"
proof -
  let ?f = "fetch_listings w cfg s"
  let ?r = "run_strategies w cfg (fst ?f) (snd ?f)"
  have f: "seen_listing_ids (snd ?f) = seen_listing_ids s" "db_calls (snd ?f) = db_calls s"
    using fetch_listings_bookkeeping[of s w cfg] by (simp_all add: same_bookkeeping_def)
  have r: "seen_listing_ids (snd ?r) = seen_listing_ids s" "db_calls (snd ?r) = db_calls s"
    using run_strategies_bookkeeping[of "snd ?f" w cfg "fst ?f"] f
    by (simp_all add: same_bookkeeping_def)
  show ?thesis
    by (simp add: scan_cycle_def handoff_raises_def Let_def case_prod_beta
          save_deals_to_db_def time_sleep_def emit_def f r split: db_outcome.split)
qed

lemma scan_cycle_sleeps:
  "\<exists>events. trace (scan_cycle w cfg s)
     = events @ [Sleep (get_or (scan_interval_seconds cfg) 600)]"
  by (simp add: scan_cycle_def Let_def case_prod_beta time_sleep_def emit_def)

lemma cycle_fetch:
  "feed_api w = feed_api one_page_world \<Longrightarrow>
   fst (fetch_listings w cycle_config initial_scanner) = [other_listing, overpay_listing]"
  by (simp add: fetch_listings_def cycle_config_def weapons_config_def empty_config_def
        get_or_def numeral_2_eq_2 one_page_world_def quiet_world_def initial_scanner_def
        Let_def emit_def truthy_def)

lemma cycle_overpay_deals:
  "map deal_listing_id (analyze_high_overpay_deals cycle_config [other_listing, overpay_listing])
     = [Some ''L0'', Some ''L1'']"
  by (simp add: analyze_high_overpay_deals_def high_overpay_item_def Let_def
        cycle_config_def weapons_config_def empty_config_def get_or_def any_weapon_in_def
        other_listing_def overpay_listing_def decorations_value_def decoration_price_def
        cents_to_major cap_of_100)

lemma cycle_handoff:
  assumes "feed_api w = feed_api one_page_world"
  shows "handoff_raises w cycle_config initial_scanner
           = (database w 0 (fst (run_strategies w cycle_config
                 [other_listing, overpay_listing]
                 (snd (fetch_listings w cycle_config initial_scanner)))) = db_raises)"
proof -
  have "analyze_high_overpay_deals cycle_config [other_listing, overpay_listing] \<noteq> []"
    using cycle_overpay_deals by auto
  then have "fst (run_strategies w cycle_config [other_listing, overpay_listing]
                    (snd (fetch_listings w cycle_config initial_scanner))) \<noteq> []"
    by (rule run_strategies_overpay)
  moreover have "db_calls initial_scanner = 0" by (simp add: initial_scanner_def)
  ultimately show ?thesis
    by (simp add: handoff_raises_def Let_def cycle_fetch[OF assms])
qed

text \<open>
  C3 as stated fails where the hand-off to the database raises: the cycle fetches the
  listings L0 and L1, the high-overpay strategy finds deals, the database raises, and
  after the cycle the seen set is still empty.
\<close>

theorem failed_handoff_leaves_listings_unseen:
  "fst (fetch_listings broken_db_world cycle_config initial_scanner)
     = [other_listing, overpay_listing]
   \<and> map l_id [other_listing, overpay_listing] = [Some ''L0'', Some ''L1'']
   \<and> handoff_raises broken_db_world cycle_config initial_scanner
   \<and> seen_listing_ids (scan_cycle broken_db_world cycle_config initial_scanner) = {}"
proof -
  have fa: "feed_api broken_db_world = feed_api one_page_world"
    by (simp add: broken_db_world_def)
  have h: "handoff_raises broken_db_world cycle_config initial_scanner"
    by (simp add: cycle_handoff[OF fa]) (simp add: broken_db_world_def)
  have ids: "map l_id [other_listing, overpay_listing] = [Some ''L0'', Some ''L1'']"
    by (simp add: other_listing_def overpay_listing_def)
  have "seen_listing_ids (scan_cycle broken_db_world cycle_config initial_scanner) = {}"
    by (simp add: scan_cycle_seen h) (simp add: initial_scanner_def)
  with cycle_fetch[OF fa] h ids show ?thesis by simp
qed

text \<open>
  C3, amended. In every scan cycle the identifiers of the listings fetched in the cycle
  are merged into the seen set when the evaluation of the strategies and the hand-off to
  the database complete without an exception, whether or not deals were found; when the
  hand-off raises, the seen set is left as it was before the cycle. In both cases the
  cycle ends with the sleep of the configured interval.
\<close>

theorem scan_cycle_merges_seen:
  "(handoff_raises w cfg s \<longrightarrow> seen_listing_ids (scan_cycle w cfg s) = seen_listing_ids s)
   \<and> (\<not> handoff_raises w cfg s \<longrightarrow>
        seen_listing_ids (scan_cycle w cfg s) =
          seen_listing_ids s \<union> set (map l_id (fst (fetch_listings w cfg s))))
   \<and> (\<exists>events. trace (scan_cycle w cfg s)
         = events @ [Sleep (get_or (scan_interval_seconds cfg) 600)])"
  using scan_cycle_seen[of w cfg s] scan_cycle_sleeps[of w cfg s] by simp

theorem scan_cycle_merges_seen_witness:
  "\<not> handoff_raises one_page_world cycle_config initial_scanner
   \<and> seen_listing_ids (scan_cycle one_page_world cycle_config initial_scanner)
       = {Some ''L0'', Some ''L1''}
   \<and> handoff_raises broken_db_world cycle_config initial_scanner
   \<and> seen_listing_ids (scan_cycle broken_db_world cycle_config initial_scanner)
       = seen_listing_ids initial_scanner"
proof -
  have fa: "feed_api broken_db_world = feed_api one_page_world"
    by (simp add: broken_db_world_def)
  have h: "handoff_raises broken_db_world cycle_config initial_scanner"
    by (simp add: cycle_handoff[OF fa]) (simp add: broken_db_world_def)
  have n: "\<not> handoff_raises one_page_world cycle_config initial_scanner"
    by (simp add: cycle_handoff[OF refl]) (simp add: one_page_world_def quiet_world_def)
  have ids: "set (map l_id (fst (fetch_listings one_page_world cycle_config initial_scanner)))
               = {Some ''L0'', Some ''L1''}"
    by (simp add: cycle_fetch[OF refl]) (simp add: other_listing_def overpay_listing_def)
  have e: "seen_listing_ids initial_scanner = {}" by (simp add: initial_scanner_def)
  from scan_cycle_merges_seen[of one_page_world cycle_config initial_scanner]
    scan_cycle_merges_seen[of broken_db_world cycle_config initial_scanner] h n ids e
  show ?thesis by simp
qed

end
